theory Spec2Isabelle
  imports Main
begin

section \<open>The interaction engine of the kino bot (src/index.js)\<close>

text \<open>
  A shallow embedding of the stateful core of \<^verbatim>\<open>src/index.js\<close>: the rate limiter, the
  session store with its expiry check, the admin cache, the subscription gate, the admin
  wizard \<^verbatim>\<open>handleAdminInput\<close>, the rating handler and the broadcast controller.

  Conventions of the model.
  \<^item> The process-wide maps and the Mongo collections are the fields of one record
    \<open>world\<close>; every handler takes the world and returns the new one.
  \<^item> A Telegram Bot API call the code issues is appended to \<open>w_outbox\<close>; what the outside
    answers (delivery failure, membership status, store failure, the clock) is read from
    the record \<open>env\<close>, one reading of the clock per handler run.
  \<^item> A call that the source does not await (a \<^verbatim>\<open>safeSend\<close>, an answer to a callback query) is
    modelled as completing where it is made; the panel functions (\<^verbatim>\<open>showAdminPanel\<close> and its
    siblings), which only read the store and render, are the request \<open>Render\<close>.
  \<^item> \<^verbatim>\<open>console.error\<close> appends to \<open>w_console\<close>.
  \<^item> A JavaScript exception is the result \<open>Err e w\<close>, carrying the world at the throw.
  \<^item> User-visible texts are the constructors of \<open>notice\<close>, one per literal of the source.
  \<^item> Strings are byte strings; numbers that the code treats as integers (identifiers,
    codes, counters, milliseconds) are \<open>int\<close> or \<open>nat\<close>, exact where the source's doubles
    are (below \<open>2^53\<close>).
  \<^item> Record fields carry a prefix naming their record (\<open>u_\<close> user, \<open>m_\<close> movie, \<open>s_\<close>
    session, \<open>msg_\<close> message, \<open>w_\<close> world), since several schemas share field names.
\<close>

subsection \<open>Data\<close>

type_synonym actor = int
type_synonym time = int

datatype contentKind = movie | series

datatype perm = movies | channels | settings | users | broadcast | admins

datatype chanType = main | movie_codes

record user =
  u_id :: nat
  u_telegramId :: actor
  u_firstName :: string
  u_username :: "string option"
  u_birthYear :: "int option"
  u_isBanned :: bool
  u_isActive :: bool

record episode =
  ep_number :: nat
  ep_fileId :: "string option"
  ep_name :: string

record movieDoc =
  m_id :: nat
  m_code :: int
  m_contentType :: contentKind
  m_title :: "string option"
  m_posterId :: "string option"
  m_country :: "string option"
  m_language :: "string option"
  m_quality :: "string option"
  m_duration :: "string option"
  m_isAdult :: bool
  m_fileId :: "string option"
  m_episodes :: "episode list"
  m_ratingSum :: int
  m_ratingCount :: int
  m_ratedUsers :: "actor list"
  m_addedBy :: actor

record channel =
  ch_channelId :: string
  ch_name :: "string option"
  ch_url :: string
  ch_type :: chanType

record permissions =
  p_movies :: bool
  p_channels :: bool
  p_settings :: bool
  p_users :: bool
  p_broadcast :: bool
  p_admins :: bool

record adminDoc =
  a_telegramId :: actor
  a_addedBy :: actor
  a_permissions :: permissions

record settingsDoc =
  set_globalProtection :: bool
  set_globalDownload :: bool
  set_autoPost :: bool

record videoFile =
  v_file_id :: string
  v_width :: nat
  v_duration :: nat

record sender =
  from_first_name :: "string option"
  from_username :: "string option"

record message =
  msg_chat_id :: actor
  msg_message_id :: nat
  msg_from :: "sender option"
  msg_text :: "string option"
  msg_caption :: "string option"
  msg_photo :: "string list option"
  msg_video :: "videoFile option"

text \<open>\<open>msg_photo\<close> lists the \<^verbatim>\<open>file_id\<close>s of the photo sizes, in the order Telegram sends them.\<close>

datatype action = ASK_BIRTH_YEAR | WAITING_SUB | ADD_CONTENT | ADD_EPISODE | ADD_CHANNEL
  | EDIT_SEARCH | EDIT_FIELD | BROADCAST | SEARCH_USER | MANAGE_ADMIN_ID

datatype step = VIDEO | POSTER | TITLE | COUNTRY | LANG | ADULT | CODE | NAME | URL

record draft =
  d_fileId :: "string option"
  d_quality :: "string option"
  d_duration :: "string option"
  d_posterId :: "string option"
  d_title :: "string option"
  d_country :: "string option"
  d_language :: "string option"
  d_isAdult :: "bool option"
  d_name :: "string option"

record episodeDraft =
  te_fileId :: string
  te_quality :: string

record session =
  s_action :: action
  s_step :: "step option"
  s_data :: "draft option"
  s_contentType :: "contentKind option"
  s_permissionRequired :: "perm option"
  s_timestamp :: time
  s_pendingCode :: "string option"
  s_movieId :: "nat option"
  s_field :: "string option"
  s_tempEpisodeData :: "episodeDraft option"
  s_type :: "chanType option"
  s_msg :: "message option"

record cacheEntry =
  c_isAdmin :: bool
  c_expire :: time

record controller =
  isActive :: bool
  shouldStop :: bool

datatype notice =
    SessionExpired
  | BadBirthYear int
  | BirthYearSaved
  | NoPermission
  | VideoRequired
  | AskPoster
  | PhotoRequired
  | AskTitle
  | AskCountry
  | AskLanguage
  | AskAdult
  | DigitsOnly
  | CodeTaken
  | ContentAdded contentKind int
  | SeriesNotFound
  | EpisodeVideoRequired
  | AskEpisodeName nat
  | EpisodeAdded nat string
  | AskChannelUrl
  | ChannelAdded string "string option"
  | ChannelError
  | NotFound
  | PhotoPlease
  | VideoFilePlease
  | Changed
  | MovieNotFound
  | ConfirmBroadcastPrompt
  | NumericIdOnly
  | UserNotFound
  | NumericAdminIdOnly
  | SuperAdminUntouchable
  | SystemError
  | ActionCancelled
  | AskVideo contentKind
  | AskCode
  | AskBroadcastPost
  | Stopping
  | NothingToStop
  | CallbackSystemError
  | RatingAccepted int
  | AlreadyVoted
  | AlreadyRunning
  | BroadcastStarted
  | BroadcastStopped nat
  | BroadcastFinished nat nat

datatype panel = AdminPanel | EditMoviePanel nat | ChannelsPanel | UserManagePanel actor
  | AdminPermsPanel actor

datatype request =
    SendMessage actor notice
  | AnswerCallbackQuery nat "notice option" bool
  | DeleteMessage actor nat
  | CopyMessage actor actor nat
  | GetChatMember string actor
  | GetChat string
  | SendPhoto string "string option" int
  | Render actor panel

datatype logEntry = HandlerError | AdminInputError | CallbackError | SubscriptionError string
  | AutoPostError | ChannelAddError | UnhandledRejection

datatype exn = TypeError | CastError | StoreError | TransportError

datatype storeOp = UserUpsert | UserSave | UserFindOne | UserUpdateOne | UserCursor
  | AdminFindOne | AdminCreate | ChannelFind | ChannelFindOne | ChannelUpsert
  | MovieFindOne | MovieFindById | MovieCreate | MovieSave | MovieUpdateOne
  | SettingsFindOne

record apiError =
  statusCode :: "nat option"

text \<open>
  \<open>statusCode\<close> is \<^verbatim>\<open>e.response.statusCode\<close>, \<open>None\<close> when the error has no response.
\<close>

record world =
  w_floodMap :: "actor \<rightharpoonup> time"
  w_state :: "actor \<rightharpoonup> session"
  w_adminCache :: "actor \<rightharpoonup> cacheEntry"
  w_broadcastController :: controller
  w_users :: "user list"
  w_movies :: "movieDoc list"
  w_channels :: "channel list"
  w_admins :: "adminDoc list"
  w_settings :: "settingsDoc option"
  w_outbox :: "request list"
  w_console :: "logEntry list"

record env =
  superAdminId :: actor
  now :: time
  currentYear :: int
  sendMessage :: "actor \<Rightarrow> notice \<Rightarrow> apiError + nat"
  copyMessage :: "actor \<Rightarrow> apiError option"
  getChatMember :: "string \<Rightarrow> actor \<Rightarrow> apiError + string"
  getChat :: "string \<Rightarrow> apiError + int"
  sendPhoto :: "string \<Rightarrow> apiError option"
  storeFails :: "storeOp \<Rightarrow> bool"
  stopPresses :: "actor option \<Rightarrow> nat list"

text \<open>
  The fields of \<open>env\<close> from \<open>sendMessage\<close> on are the answers of the transport and of the
  store: \<open>None\<close> (or \<open>Inr\<close>) is success, \<open>Some e\<close> (or \<open>Inl e\<close>) the error the awaited call
  rejects with; \<open>sendMessage\<close> answers the \<^verbatim>\<open>message_id\<close> of the message sent;
  \<open>storeFails op\<close> says that the awaited store operation \<open>op\<close> of a handler rejects. The two
  writes that mark a user inactive after a failed delivery (in \<^verbatim>\<open>safeSend\<close> and in the
  broadcast loop) and the broadcast's cursor are taken to succeed.
  \<open>stopPresses\<close> lists the callback-query ids of the stop requests that admins send while a
  broadcast awaits: \<open>None\<close> during its start notice, \<open>Some u\<close> during the relay to \<open>u\<close>.
\<close>

datatype 'a res = Ok 'a world | Err exn world

definition await :: "'a res \<Rightarrow> ('a \<Rightarrow> world \<Rightarrow> 'b res) \<Rightarrow> 'b res" where
  "await r k = (case r of Ok x w \<Rightarrow> k x w | Err e w \<Rightarrow> Err e w)"

subsection \<open>Configuration (CONFIG)\<close>

definition floodLimit :: int where
  "floodLimit = 800"

definition stateTTL :: int where
  "stateTTL = 30 * 60 * 1000"

definition adminCacheTTL :: int where
  "adminCacheTTL = 60 * 1000"

subsection \<open>Store and effect primitives\<close>

fun updateOne :: "('a \<Rightarrow> bool) \<Rightarrow> ('a \<Rightarrow> 'a) \<Rightarrow> 'a list \<Rightarrow> 'a list" where
  "updateOne p f [] = []"
| "updateOne p f (x # xs) = (if p x then f x # xs else x # updateOne p f xs)"

definition emit :: "request \<Rightarrow> world \<Rightarrow> world" where
  "emit r w = w\<lparr>w_outbox := w_outbox w @ [r]\<rparr>"

definition logError :: "logEntry \<Rightarrow> world \<Rightarrow> world" where
  "logError l w = w\<lparr>w_console := w_console w @ [l]\<rparr>"

definition stateDelete :: "actor \<Rightarrow> world \<Rightarrow> world" where
  "stateDelete chatId w = w\<lparr>w_state := (w_state w)(chatId := None)\<rparr>"

definition stateSet :: "actor \<Rightarrow> session \<Rightarrow> world \<Rightarrow> world" where
  "stateSet chatId st w = w\<lparr>w_state := (w_state w)(chatId \<mapsto> st)\<rparr>"

subsection \<open>Section 3 of the source: helpers\<close>

definition isSpace :: "char \<Rightarrow> bool" where
  "isSpace c = (c \<in> set [CHR '' '', CHR 0x09, CHR 0x0A, CHR 0x0B, CHR 0x0C, CHR 0x0D])"

definition trim :: "string \<Rightarrow> string" where
  "trim s = rev (dropWhile isSpace (rev (dropWhile isSpace s)))"

definition replaceAll :: "char \<Rightarrow> string \<Rightarrow> string \<Rightarrow> string" where
  "replaceAll c r s = concat (map (\<lambda>x. if x = c then r else [x]) s)"

definition sanitize :: "string option \<Rightarrow> string" where
  "sanitize str = (case str of None \<Rightarrow> []
     | Some s \<Rightarrow> if s = [] then []
         else trim (replaceAll (CHR 0x22) ''&quot;'' (replaceAll (CHR ''>'') ''&gt;''
               (replaceAll (CHR ''<'') ''&lt;'' (replaceAll (CHR ''&'') ''&amp;'' s)))))"

definition safeDelete :: "actor \<Rightarrow> nat option \<Rightarrow> world \<Rightarrow> world" where
  "safeDelete chatId msgId w = (case msgId of None \<Rightarrow> w
     | Some i \<Rightarrow> if i = 0 then w else emit (DeleteMessage chatId i) w)"

definition safeSend :: "env \<Rightarrow> actor \<Rightarrow> notice \<Rightarrow> world \<Rightarrow> world" where
  "safeSend e chatId n w =
     (let w1 = emit (SendMessage chatId n) w in
      case sendMessage e chatId n of
        Inr sent \<Rightarrow> w1
      | Inl err \<Rightarrow>
          if statusCode err = Some 403
          then w1\<lparr>w_users := updateOne (\<lambda>u. u_telegramId u = chatId)
                                        (\<lambda>u. u\<lparr>u_isActive := False\<rparr>) (w_users w1)\<rparr>
          else w1)"

definition sentMessageId :: "env \<Rightarrow> actor \<Rightarrow> notice \<Rightarrow> nat option" where
  "sentMessageId e chatId n = (case sendMessage e chatId n of Inr sent \<Rightarrow> Some sent | Inl err \<Rightarrow> None)"

text \<open>
  \<^verbatim>\<open>safeSend\<close> swallows every error of \<^verbatim>\<open>bot.sendMessage\<close>; on status 403 it marks the
  addressee's user record inactive. \<open>sentMessageId\<close> is what \<^verbatim>\<open>safeSend\<close> returns: the sent
  message's id, or nothing after an error.
\<close>

definition lastAction :: "(actor \<rightharpoonup> time) \<Rightarrow> actor \<Rightarrow> time" where
  "lastAction fm userId = (case fm userId of None \<Rightarrow> 0 | Some t \<Rightarrow> t)"

definition isFlooding :: "env \<Rightarrow> actor \<Rightarrow> world \<Rightarrow> bool \<times> world" where
  "isFlooding e userId w =
     (let last = lastAction (w_floodMap w) userId in
      if now e - last < floodLimit then (True, w)
      else (False, w\<lparr>w_floodMap := (w_floodMap w)(userId \<mapsto> now e)\<rparr>))"

definition cachedAdmin :: "env \<Rightarrow> actor \<Rightarrow> world \<Rightarrow> bool option" where
  "cachedAdmin e userId w =
     (case w_adminCache w userId of
        None \<Rightarrow> None
      | Some cached \<Rightarrow> if c_expire cached > now e then Some (c_isAdmin cached) else None)"

definition isUserAdmin :: "env \<Rightarrow> actor \<Rightarrow> world \<Rightarrow> bool res" where
  "isUserAdmin e userId w =
     (if userId = superAdminId e then Ok True w
      else case cachedAdmin e userId w of
        Some b \<Rightarrow> Ok b w
      | None \<Rightarrow>
          if storeFails e AdminFindOne then Err StoreError w
          else (let isAdmin = (find (\<lambda>a. a_telegramId a = userId) (w_admins w) \<noteq> None)
                in Ok isAdmin (w\<lparr>w_adminCache := (w_adminCache w)
                     (userId \<mapsto> \<lparr>c_isAdmin = isAdmin, c_expire = now e + adminCacheTTL\<rparr>)\<rparr>)))"

definition permOf :: "perm \<Rightarrow> permissions \<Rightarrow> bool" where
  "permOf p ps = (case p of movies \<Rightarrow> p_movies ps | channels \<Rightarrow> p_channels ps
     | settings \<Rightarrow> p_settings ps | users \<Rightarrow> p_users ps | broadcast \<Rightarrow> p_broadcast ps
     | admins \<Rightarrow> p_admins ps)"

definition hasPermission :: "env \<Rightarrow> actor \<Rightarrow> perm \<Rightarrow> world \<Rightarrow> bool res" where
  "hasPermission e userId p w =
     (if userId = superAdminId e then Ok True w
      else if storeFails e AdminFindOne then Err StoreError w
      else case find (\<lambda>a. a_telegramId a = userId) (w_admins w) of
        None \<Rightarrow> Ok False w
      | Some admin \<Rightarrow> Ok (permOf p (a_permissions admin)) w)"

fun checkChannels :: "env \<Rightarrow> actor \<Rightarrow> channel list \<Rightarrow> channel list \<Rightarrow> world
    \<Rightarrow> channel list \<times> world" where
  "checkChannels e userId [] missingChannels w = (missingChannels, w)"
| "checkChannels e userId (ch # chs) missingChannels w =
     (let w1 = emit (GetChatMember (ch_channelId ch) userId) w in
      case getChatMember e (ch_channelId ch) userId of
        Inr status \<Rightarrow>
          checkChannels e userId chs
            (if status \<in> set [''left'', ''kicked''] then missingChannels @ [ch]
             else missingChannels) w1
      | Inl err \<Rightarrow>
          checkChannels e userId chs missingChannels
            (logError (SubscriptionError (ch_channelId ch)) w1))"

definition checkSubscription :: "env \<Rightarrow> actor \<Rightarrow> world \<Rightarrow> channel list res" where
  "checkSubscription e userId w =
     await (isUserAdmin e userId w) (\<lambda>isAdmin w1.
       if isAdmin then Ok [] w1
       else if storeFails e ChannelFind then Err StoreError w1
       else if w_channels w1 = [] then Ok [] w1
       else (case checkChannels e userId (w_channels w1) [] w1 of
               (missingChannels, w2) \<Rightarrow> Ok missingChannels w2))"

subsection \<open>JavaScript string and number helpers\<close>

definition startsWith :: "string \<Rightarrow> string \<Rightarrow> bool" where
  "startsWith s p = (take (length p) s = p)"

fun includesStr :: "string \<Rightarrow> string \<Rightarrow> bool" where
  "includesStr [] p = (p = [])"
| "includesStr (c # cs) p = (startsWith (c # cs) p \<or> includesStr cs p)"

text \<open>
  \<open>splitGo sep skip acc s\<close> is \<^verbatim>\<open>String.prototype.split\<close> for a non-empty separator:
  \<open>acc\<close> holds the current piece reversed, \<open>skip\<close> the characters of a matched separator
  still to pass over.
\<close>

fun splitGo :: "string \<Rightarrow> nat \<Rightarrow> string \<Rightarrow> string \<Rightarrow> string list" where
  "splitGo sep skip acc [] = [rev acc]"
| "splitGo sep skip acc (c # cs) =
     (if skip > 0 then splitGo sep (skip - 1) acc cs
      else if startsWith (c # cs) sep then rev acc # splitGo sep (length sep - 1) [] cs
      else splitGo sep 0 (c # acc) cs)"

definition splitStr :: "string \<Rightarrow> string \<Rightarrow> string list" where
  "splitStr s sep = splitGo sep 0 [] s"

definition nth_opt :: "'a list \<Rightarrow> nat \<Rightarrow> 'a option" where
  "nth_opt xs i = (if i < length xs then Some (xs ! i) else None)"

definition isDigit :: "char \<Rightarrow> bool" where
  "isDigit c = (c \<in> set ''0123456789'')"

definition digitValue :: "char \<Rightarrow> nat option" where
  "digitValue c =
     (let n = of_char c :: nat in
      if 48 \<le> n \<and> n \<le> 57 then Some (n - 48)
      else if 97 \<le> n \<and> n \<le> 122 then Some (n - 87)
      else if 65 \<le> n \<and> n \<le> 90 then Some (n - 55)
      else None)"

definition inRadix :: "nat \<Rightarrow> char \<Rightarrow> bool" where
  "inRadix r c = (case digitValue c of None \<Rightarrow> False | Some d \<Rightarrow> d < r)"

definition digitsValue :: "nat \<Rightarrow> string \<Rightarrow> nat" where
  "digitsValue r ds = foldl (\<lambda>acc c. acc * r + (case digitValue c of None \<Rightarrow> 0 | Some d \<Rightarrow> d)) 0 ds"

text \<open>
  \<^verbatim>\<open>parseInt(s)\<close> with no radix argument: leading white space and one sign are skipped, a
  prefix \<^verbatim>\<open>0x\<close> or \<^verbatim>\<open>0X\<close> selects radix 16, the longest run of digits is read and what
  follows it is ignored; \<open>None\<close> is \<^verbatim>\<open>NaN\<close>.
\<close>

definition parseInt :: "string \<Rightarrow> int option" where
  "parseInt s =
     (let s1 = dropWhile isSpace s;
          neg = (s1 \<noteq> [] \<and> hd s1 = CHR ''-'');
          s2 = (if s1 \<noteq> [] \<and> (hd s1 = CHR ''-'' \<or> hd s1 = CHR ''+'') then tl s1 else s1);
          hex = (startsWith s2 ''0x'' \<or> startsWith s2 ''0X'');
          r = (if hex then 16 else 10);
          s3 = (if hex then drop 2 s2 else s2);
          ds = takeWhile (inRadix r) s3
      in if ds = [] then None
         else Some (if neg then - int (digitsValue r ds) else int (digitsValue r ds)))"

definition digitChar :: "nat \<Rightarrow> char" where
  "digitChar n = ''0123456789'' ! (n mod 10)"

function showNat :: "nat \<Rightarrow> string" where
  "showNat n = (if n < 10 then [digitChar n] else showNat (n div 10) @ [digitChar n])"
  by pat_completeness auto
termination
  by (relation "measure id") auto

declare showNat.simps [simp del]

definition showInt :: "int \<Rightarrow> string" where
  "showInt i = (if i < 0 then CHR ''-'' # showNat (nat (- i)) else showNat (nat i))"

definition detectQuality :: "nat \<Rightarrow> string" where
  "detectQuality w =
     (if w = 0 then ''480p''
      else if w \<ge> 3840 then ''4K UHD''
      else if w \<ge> 1920 then ''1080p FHD''
      else if w \<ge> 1280 then ''720p HD''
      else ''480p HQ'')"

definition formatDuration :: "nat \<Rightarrow> string" where
  "formatDuration d =
     (if d = 0 then ''00:00''
      else (let h = d div 3600; m = (d mod 3600) div 60; s = d mod 60 in
            (if h > 0 then showNat h @ '':'' else []) @ showNat m @ '':''
              @ (if s < 10 then CHR ''0'' # showNat s else showNat s)))"

definition truthy :: "string option \<Rightarrow> bool" where
  "truthy s = (case s of None \<Rightarrow> False | Some t \<Rightarrow> t \<noteq> [])"

definition messageText :: "message \<Rightarrow> string" where
  "messageText msg =
     trim (case msg_text msg of
             Some t \<Rightarrow> if t \<noteq> [] then t
                       else (case msg_caption msg of Some c \<Rightarrow> c | None \<Rightarrow> [])
           | None \<Rightarrow> (case msg_caption msg of Some c \<Rightarrow> c | None \<Rightarrow> []))"

text \<open>
  \<open>messageText msg\<close> is \<^verbatim>\<open>(msg.text || msg.caption || '').trim()\<close>: an empty caption and a
  missing one both give the empty string.
\<close>

subsection \<open>Section 5 of the source: handleAdminInput\<close>

definition findByCode :: "int \<Rightarrow> movieDoc list \<Rightarrow> movieDoc option" where
  "findByCode code ms = find (\<lambda>m. m_code m = code) ms"

definition findById :: "nat option \<Rightarrow> movieDoc list \<Rightarrow> movieDoc option" where
  "findById mid ms = (case mid of None \<Rightarrow> None | Some i \<Rightarrow> find (\<lambda>m. m_id m = i) ms)"

definition freshId :: "movieDoc list \<Rightarrow> nat" where
  "freshId ms = Suc (fold max (map m_id ms) 0)"

definition saveMovie :: "movieDoc \<Rightarrow> world \<Rightarrow> world" where
  "saveMovie doc w =
     w\<lparr>w_movies := updateOne (\<lambda>m. m_id m = m_id doc) (\<lambda>m. doc) (w_movies w)\<rparr>"

definition emptyDraft :: draft where
  "emptyDraft = \<lparr>d_fileId = None, d_quality = None, d_duration = None, d_posterId = None,
     d_title = None, d_country = None, d_language = None, d_isAdult = None, d_name = None\<rparr>"

definition kindOf :: "session \<Rightarrow> contentKind" where
  "kindOf st = (case s_contentType st of None \<Rightarrow> movie | Some k \<Rightarrow> k)"

text \<open>
  The document \<^verbatim>\<open>Movie.create(finalData)\<close> stores:
  \<^verbatim>\<open>{ code, ...st.data, addedBy: chatId, contentType: st.contentType }\<close>, for a series with the
  file moved into a first episode, and the schema's defaults for what is absent.
\<close>

definition finalData :: "actor \<Rightarrow> session \<Rightarrow> int \<Rightarrow> nat \<Rightarrow> movieDoc" where
  "finalData chatId st code newId =
     (let d = (case s_data st of None \<Rightarrow> emptyDraft | Some d \<Rightarrow> d);
          isSeries = (s_contentType st = Some series)
      in \<lparr>m_id = newId, m_code = code, m_contentType = kindOf st,
          m_title = d_title d, m_posterId = d_posterId d, m_country = d_country d,
          m_language = d_language d, m_quality = d_quality d, m_duration = d_duration d,
          m_isAdult = (case d_isAdult d of None \<Rightarrow> False | Some b \<Rightarrow> b),
          m_fileId = (if isSeries then None else d_fileId d),
          m_episodes = (if isSeries
             then [\<lparr>ep_number = 1, ep_fileId = d_fileId d, ep_name = ''1-qism''\<rparr>] else []),
          m_ratingSum = 0, m_ratingCount = 0, m_ratedUsers = [], m_addedBy = chatId\<rparr>)"

definition autoPost :: "env \<Rightarrow> movieDoc \<Rightarrow> world \<Rightarrow> unit res" where
  "autoPost e doc w =
     (if storeFails e SettingsFindOne then Err StoreError w
      else case w_settings w of
        None \<Rightarrow> Ok () w
      | Some conf \<Rightarrow>
          if \<not> set_autoPost conf then Ok () w
          else if storeFails e ChannelFindOne then Err StoreError w
          else (case find (\<lambda>c. ch_type c = movie_codes) (w_channels w) of
                  None \<Rightarrow> Ok () w
                | Some codesChannel \<Rightarrow>
                    (let w1 = emit (SendPhoto (ch_channelId codesChannel) (m_posterId doc)
                                      (m_code doc)) w
                     in case sendPhoto e (ch_channelId codesChannel) of
                          None \<Rightarrow> Ok () w1
                        | Some err \<Rightarrow> Ok () (logError AutoPostError w1))))"

definition submitCode :: "env \<Rightarrow> actor \<Rightarrow> string \<Rightarrow> session \<Rightarrow> world \<Rightarrow> unit res" where
  "submitCode e chatId txt st w =
     (case parseInt txt of
        None \<Rightarrow> Ok () (safeSend e chatId DigitsOnly w)
      | Some code \<Rightarrow>
          if storeFails e MovieFindOne then Err StoreError w
          else if findByCode code (w_movies w) \<noteq> None then Ok () (safeSend e chatId CodeTaken w)
          else if s_contentType st = Some series \<and> s_data st = None then Err TypeError w
          else if storeFails e MovieCreate then Err StoreError w
          else (let doc = finalData chatId st code (freshId (w_movies w));
                    w1 = w\<lparr>w_movies := w_movies w @ [doc]\<rparr>
                in await (autoPost e doc w1) (\<lambda>u w2.
                     Ok () (emit (Render chatId AdminPanel)
                             (safeSend e chatId (ContentAdded (kindOf st) code)
                               (stateDelete chatId w2))))))"

definition setDraft :: "env \<Rightarrow> actor \<Rightarrow> session \<Rightarrow> (draft \<Rightarrow> draft) \<Rightarrow> step \<Rightarrow> notice
    \<Rightarrow> world \<Rightarrow> unit res" where
  "setDraft e chatId st f nxt prompt w =
     (case s_data st of
        None \<Rightarrow> Err TypeError w
      | Some d \<Rightarrow>
          Ok () (safeSend e chatId prompt
                  (stateSet chatId (st\<lparr>s_data := Some (f d), s_step := Some nxt\<rparr>) w)))"

text \<open>
  \<open>setDraft\<close> is the shape shared by the steps that assign one field of \<^verbatim>\<open>st.data\<close>, set
  \<^verbatim>\<open>st.step\<close> and prompt for the next step; assigning into an absent \<^verbatim>\<open>st.data\<close> throws.
\<close>

definition addContent :: "env \<Rightarrow> actor \<Rightarrow> message \<Rightarrow> session \<Rightarrow> world \<Rightarrow> unit res" where
  "addContent e chatId msg st w =
     (case s_step st of
        Some VIDEO \<Rightarrow>
          (case msg_video msg of
             None \<Rightarrow> Ok () (safeSend e chatId VideoRequired w)
           | Some v \<Rightarrow>
               Ok () (safeSend e chatId AskPoster
                 (stateSet chatId
                    (st\<lparr>s_data := Some (emptyDraft\<lparr>d_fileId := Some (v_file_id v),
                                          d_quality := Some (detectQuality (v_width v)),
                                          d_duration := Some (formatDuration (v_duration v))\<rparr>),
                        s_step := Some POSTER\<rparr>) w)))
      | Some POSTER \<Rightarrow>
          (case msg_photo msg of
             None \<Rightarrow> Ok () (safeSend e chatId PhotoRequired w)
           | Some sizes \<Rightarrow>
               if sizes = [] then Err TypeError w
               else setDraft e chatId st (\<lambda>d. d\<lparr>d_posterId := Some (last sizes)\<rparr>) TITLE
                      AskTitle w)
      | Some TITLE \<Rightarrow>
          setDraft e chatId st (\<lambda>d. d\<lparr>d_title := Some (sanitize (Some (messageText msg)))\<rparr>)
            COUNTRY AskCountry w
      | Some COUNTRY \<Rightarrow>
          setDraft e chatId st (\<lambda>d. d\<lparr>d_country := Some (sanitize (Some (messageText msg)))\<rparr>)
            LANG AskLanguage w
      | Some LANG \<Rightarrow>
          setDraft e chatId st (\<lambda>d. d\<lparr>d_language := Some (sanitize (Some (messageText msg)))\<rparr>)
            ADULT AskAdult w
      | Some CODE \<Rightarrow> submitCode e chatId (messageText msg) st w
      | _ \<Rightarrow> Ok () w)"

definition addEpisode :: "env \<Rightarrow> actor \<Rightarrow> message \<Rightarrow> session \<Rightarrow> world \<Rightarrow> unit res" where
  "addEpisode e chatId msg st w =
     (if storeFails e MovieFindById then Err StoreError w
      else case findById (s_movieId st) (w_movies w) of
        None \<Rightarrow> Ok () (safeSend e chatId SeriesNotFound (stateDelete chatId w))
      | Some mv \<Rightarrow>
          (case s_step st of
             Some VIDEO \<Rightarrow>
               (case msg_video msg of
                  None \<Rightarrow> Ok () (safeSend e chatId EpisodeVideoRequired w)
                | Some v \<Rightarrow>
                    Ok () (safeSend e chatId (AskEpisodeName (length (m_episodes mv) + 1))
                      (stateSet chatId
                         (st\<lparr>s_tempEpisodeData := Some \<lparr>te_fileId = v_file_id v,
                                te_quality = detectQuality (v_width v)\<rparr>,
                             s_step := Some NAME\<rparr>) w)))
           | Some NAME \<Rightarrow>
               (let nextEpNum = length (m_episodes mv) + 1;
                    epName = sanitize (Some (messageText msg))
                in case s_tempEpisodeData st of
                     None \<Rightarrow> Err TypeError w
                   | Some t \<Rightarrow>
                       if storeFails e MovieSave then Err StoreError w
                       else Ok () (emit (Render chatId (EditMoviePanel (m_id mv)))
                              (safeSend e chatId (EpisodeAdded nextEpNum epName)
                                (stateDelete chatId
                                  (saveMovie
                                     (mv\<lparr>m_episodes := m_episodes mv @
                                            [\<lparr>ep_number = nextEpNum, ep_fileId = Some (te_fileId t),
                                              ep_name = epName\<rparr>],
                                         m_quality := Some (te_quality t)\<rparr>) w)))))
           | _ \<Rightarrow> Ok () w))"

definition firstPiece :: "string \<Rightarrow> string \<Rightarrow> string" where
  "firstPiece s sep = (case splitStr s sep of [] \<Rightarrow> [] | x # xs \<Rightarrow> x)"

definition usernameOf :: "string \<Rightarrow> string option" where
  "usernameOf txt =
     (if includesStr txt ''t.me/''
      then (case nth_opt (splitStr txt ''t.me/'') 1 of
              None \<Rightarrow> None
            | Some p \<Rightarrow> Some (CHR ''@'' # firstPiece (firstPiece p ''/'') ''?''))
      else if \<not> startsWith txt ''@'' \<and> \<not> startsWith txt ''-100'' then Some (CHR ''@'' # txt)
      else Some txt)"

definition isChannelIdLiteral :: "string \<Rightarrow> bool" where
  "isChannelIdLiteral txt =
     (startsWith txt ''-100'' \<and> drop 4 txt \<noteq> [] \<and> list_all isDigit (drop 4 txt))"

text \<open>\<open>isChannelIdLiteral\<close> is the test \<^verbatim>\<open>/^-100\d+$/\<close>.\<close>

definition upsertChannel :: "string \<Rightarrow> string option \<Rightarrow> string \<Rightarrow> chanType option
    \<Rightarrow> channel list \<Rightarrow> channel list" where
  "upsertChannel channelId name url ty chs =
     (if find (\<lambda>c. ch_channelId c = channelId) chs \<noteq> None
      then updateOne (\<lambda>c. ch_channelId c = channelId)
             (\<lambda>c. c\<lparr>ch_name := (case name of None \<Rightarrow> ch_name c | Some n \<Rightarrow> Some n),
                    ch_url := url,
                    ch_type := (case ty of None \<Rightarrow> ch_type c | Some t \<Rightarrow> t)\<rparr>) chs
      else chs @ [\<lparr>ch_channelId = channelId, ch_name = name, ch_url = url,
                   ch_type = (case ty of None \<Rightarrow> main | Some t \<Rightarrow> t)\<rparr>])"

definition registerChannel :: "env \<Rightarrow> actor \<Rightarrow> string \<Rightarrow> string \<Rightarrow> session \<Rightarrow> draft
    \<Rightarrow> world \<Rightarrow> unit res" where
  "registerChannel e chatId txt username st d w =
     await (if isChannelIdLiteral txt then Ok txt w
            else (let w1 = emit (GetChat username) w in
                  case getChat e username of
                    Inl err \<Rightarrow> Err TransportError w1
                  | Inr cid \<Rightarrow> Ok (showInt cid) w1))
       (\<lambda>channelId w2.
          if storeFails e ChannelUpsert then Err StoreError w2
          else Ok () (emit (Render chatId ChannelsPanel)
                 (safeSend e chatId (ChannelAdded channelId (d_name d))
                   (stateDelete chatId
                     (w2\<lparr>w_channels := upsertChannel channelId (d_name d) txt (s_type st)
                                          (w_channels w2)\<rparr>)))))"

definition addChannel :: "env \<Rightarrow> actor \<Rightarrow> message \<Rightarrow> session \<Rightarrow> world \<Rightarrow> unit res" where
  "addChannel e chatId msg st w =
     (case s_step st of
        Some NAME \<Rightarrow>
          Ok () (safeSend e chatId AskChannelUrl
            (stateSet chatId
               (st\<lparr>s_data := Some (emptyDraft\<lparr>d_name := Some (sanitize (Some (messageText msg)))\<rparr>),
                   s_step := Some URL\<rparr>) w))
      | Some URL \<Rightarrow>
          (case usernameOf (messageText msg) of
             None \<Rightarrow> Err TypeError w
           | Some username \<Rightarrow>
               (case s_data st of
                  None \<Rightarrow> Err TypeError w
                | Some d \<Rightarrow>
                    (case registerChannel e chatId (messageText msg) username st d w of
                       Ok u w1 \<Rightarrow> Ok u w1
                     | Err ex w1 \<Rightarrow>
                         Ok () (safeSend e chatId ChannelError (logError ChannelAddError w1)))))
      | _ \<Rightarrow> Ok () w)"

definition editSearch :: "env \<Rightarrow> actor \<Rightarrow> message \<Rightarrow> session \<Rightarrow> world \<Rightarrow> unit res" where
  "editSearch e chatId msg st w =
     (case parseInt (messageText msg) of
        None \<Rightarrow> Err CastError w
      | Some code \<Rightarrow>
          if storeFails e MovieFindOne then Err StoreError w
          else (case findByCode code (w_movies w) of
                  None \<Rightarrow> Ok () (safeSend e chatId NotFound w)
                | Some mv \<Rightarrow>
                    Ok () (emit (Render chatId (EditMoviePanel (m_id mv))) (stateDelete chatId w))))"

text \<open>
  In \<open>editSearch\<close> the code is not tested for \<^verbatim>\<open>NaN\<close> before the query; the schema declares
  \<^verbatim>\<open>code\<close> a Number, and the store's cast of the filter rejects \<^verbatim>\<open>NaN\<close>.
\<close>

definition saveEdited :: "env \<Rightarrow> actor \<Rightarrow> movieDoc \<Rightarrow> world \<Rightarrow> unit res" where
  "saveEdited e chatId doc w =
     (if storeFails e MovieSave then Err StoreError w
      else Ok () (emit (Render chatId (EditMoviePanel (m_id doc)))
             (stateDelete chatId (safeSend e chatId Changed (saveMovie doc w)))))"

definition editField :: "env \<Rightarrow> actor \<Rightarrow> message \<Rightarrow> session \<Rightarrow> world \<Rightarrow> unit res" where
  "editField e chatId msg st w =
     (if storeFails e MovieFindById then Err StoreError w
      else case findById (s_movieId st) (w_movies w) of
        None \<Rightarrow> Ok () (safeSend e chatId MovieNotFound (stateDelete chatId w))
      | Some mv \<Rightarrow>
          if s_field st = Some ''title''
          then saveEdited e chatId (mv\<lparr>m_title := Some (sanitize (Some (messageText msg)))\<rparr>) w
          else if s_field st = Some ''country''
          then saveEdited e chatId (mv\<lparr>m_country := Some (sanitize (Some (messageText msg)))\<rparr>) w
          else if s_field st = Some ''posterId''
          then (case msg_photo msg of
                  Some sizes \<Rightarrow>
                    if sizes = [] then Err TypeError w
                    else saveEdited e chatId (mv\<lparr>m_posterId := Some (last sizes)\<rparr>) w
                | None \<Rightarrow> Ok () (safeSend e chatId PhotoPlease w))
          else if s_field st = Some ''fileId'' \<and> m_contentType mv = movie
          then (case msg_video msg of
                  Some v \<Rightarrow>
                    saveEdited e chatId
                      (mv\<lparr>m_fileId := Some (v_file_id v),
                          m_quality := Some (detectQuality (v_width v)),
                          m_duration := Some (formatDuration (v_duration v))\<rparr>) w
                | None \<Rightarrow> Ok () (safeSend e chatId VideoFilePlease w))
          else saveEdited e chatId mv w)"

definition broadcastCapture :: "env \<Rightarrow> actor \<Rightarrow> message \<Rightarrow> session \<Rightarrow> world \<Rightarrow> unit res" where
  "broadcastCapture e chatId msg st w =
     Ok () (safeSend e chatId ConfirmBroadcastPrompt
             (stateSet chatId (st\<lparr>s_msg := Some msg\<rparr>) w))"

definition searchUser :: "env \<Rightarrow> actor \<Rightarrow> message \<Rightarrow> session \<Rightarrow> world \<Rightarrow> unit res" where
  "searchUser e chatId msg st w =
     (case parseInt (messageText msg) of
        None \<Rightarrow> Ok () (safeSend e chatId NumericIdOnly w)
      | Some tid \<Rightarrow>
          if storeFails e UserFindOne then Err StoreError w
          else (case find (\<lambda>u. u_telegramId u = tid) (w_users w) of
                  Some u \<Rightarrow>
                    Ok () (emit (Render chatId (UserManagePanel (u_telegramId u)))
                            (stateDelete chatId w))
                | None \<Rightarrow> Ok () (safeSend e chatId UserNotFound (stateDelete chatId w))))"

definition defaultPermissions :: permissions where
  "defaultPermissions = \<lparr>p_movies = True, p_channels = True, p_settings = False,
     p_users = True, p_broadcast = False, p_admins = False\<rparr>"

definition manageAdminId :: "env \<Rightarrow> actor \<Rightarrow> message \<Rightarrow> session \<Rightarrow> world \<Rightarrow> unit res" where
  "manageAdminId e chatId msg st w =
     (case parseInt (messageText msg) of
        None \<Rightarrow> Ok () (safeSend e chatId NumericAdminIdOnly w)
      | Some tid \<Rightarrow>
          if tid = superAdminId e then Ok () (safeSend e chatId SuperAdminUntouchable w)
          else if storeFails e AdminFindOne then Err StoreError w
          else (case find (\<lambda>a. a_telegramId a = tid) (w_admins w) of
                  Some adm \<Rightarrow>
                    Ok () (emit (Render chatId (AdminPermsPanel tid)) (stateDelete chatId w))
                | None \<Rightarrow>
                    if storeFails e AdminCreate then Err StoreError w
                    else Ok () (emit (Render chatId (AdminPermsPanel tid))
                           (stateDelete chatId
                             (w\<lparr>w_admins := w_admins w @
                                  [\<lparr>a_telegramId = tid, a_addedBy = chatId,
                                    a_permissions = defaultPermissions\<rparr>]\<rparr>)))))"

text \<open>The body of the \<^verbatim>\<open>try\<close> block of \<^verbatim>\<open>handleAdminInput\<close>: one branch per \<^verbatim>\<open>st.action\<close>.\<close>

definition adminInputBody :: "env \<Rightarrow> actor \<Rightarrow> message \<Rightarrow> session \<Rightarrow> world \<Rightarrow> unit res" where
  "adminInputBody e chatId msg st w =
     (case s_action st of
        ADD_CONTENT \<Rightarrow> addContent e chatId msg st w
      | ADD_EPISODE \<Rightarrow> addEpisode e chatId msg st w
      | ADD_CHANNEL \<Rightarrow> addChannel e chatId msg st w
      | EDIT_SEARCH \<Rightarrow> editSearch e chatId msg st w
      | EDIT_FIELD \<Rightarrow> editField e chatId msg st w
      | BROADCAST \<Rightarrow> broadcastCapture e chatId msg st w
      | SEARCH_USER \<Rightarrow> searchUser e chatId msg st w
      | MANAGE_ADMIN_ID \<Rightarrow> manageAdminId e chatId msg st w
      | _ \<Rightarrow> Ok () w)"

definition permissionGate :: "env \<Rightarrow> actor \<Rightarrow> session \<Rightarrow> world \<Rightarrow> bool res" where
  "permissionGate e chatId st w =
     (case s_permissionRequired st of
        None \<Rightarrow> Ok True w
      | Some p \<Rightarrow> hasPermission e chatId p w)"

definition handleAdminInput :: "env \<Rightarrow> actor \<Rightarrow> message \<Rightarrow> world \<Rightarrow> unit res" where
  "handleAdminInput e chatId msg w =
     (case w_state w chatId of
        None \<Rightarrow> Err TypeError w
      | Some st \<Rightarrow>
          await (permissionGate e chatId st w) (\<lambda>allowed w1.
            if \<not> allowed then Ok () (safeSend e chatId NoPermission (stateDelete chatId w1))
            else (case adminInputBody e chatId msg st w1 of
                    Ok u w2 \<Rightarrow> Ok u w2
                  | Err ex w2 \<Rightarrow>
                      Ok () (safeSend e chatId SystemError
                              (stateDelete chatId (logError AdminInputError w2))))))"

subsection \<open>Section 7 of the source: rating\<close>

definition parseIntOpt :: "string option \<Rightarrow> int option" where
  "parseIntOpt s = (case s of None \<Rightarrow> None | Some t \<Rightarrow> parseInt t)"

definition canRate :: "int \<Rightarrow> actor \<Rightarrow> movieDoc \<Rightarrow> bool" where
  "canRate code userId m = (m_code m = code \<and> userId \<notin> set (m_ratedUsers m))"

definition applyRating :: "actor \<Rightarrow> int \<Rightarrow> movieDoc \<Rightarrow> movieDoc" where
  "applyRating userId score m =
     m\<lparr>m_ratedUsers := m_ratedUsers m @ [userId],
       m_ratingSum := m_ratingSum m + score,
       m_ratingCount := m_ratingCount m + 1\<rparr>"

text \<open>
  \<open>canRate\<close> is the filter \<^verbatim>\<open>{ code: code, ratedUsers: { $ne: userId } }\<close> and \<open>applyRating\<close>
  the update \<^verbatim>\<open>{ $push: { ratedUsers: userId }, $inc: { ratingSum: score, ratingCount: 1 } }\<close>.
  The store casts the code and the score to Number and rejects \<^verbatim>\<open>NaN\<close>.
\<close>

definition handleRating :: "env \<Rightarrow> actor \<Rightarrow> string \<Rightarrow> nat \<Rightarrow> world \<Rightarrow> unit res" where
  "handleRating e userId dat qId w =
     (let parts = splitStr dat ''_'' in
      case parseIntOpt (nth_opt parts 1) of
        None \<Rightarrow> Err CastError w
      | Some code \<Rightarrow>
          (case parseIntOpt (nth_opt parts 2) of
             None \<Rightarrow> Err CastError w
           | Some score \<Rightarrow>
               if storeFails e MovieUpdateOne then Err StoreError w
               else if find (canRate code userId) (w_movies w) \<noteq> None
               then Ok () (emit (AnswerCallbackQuery qId (Some (RatingAccepted score)) False)
                      (w\<lparr>w_movies := updateOne (canRate code userId) (applyRating userId score)
                                         (w_movies w)\<rparr>))
               else Ok () (emit (AnswerCallbackQuery qId (Some AlreadyVoted) True) w)))"

subsection \<open>The broadcast controller\<close>

definition stopBroadcast :: "nat \<Rightarrow> world \<Rightarrow> world" where
  "stopBroadcast qId w =
     (if isActive (w_broadcastController w)
      then emit (AnswerCallbackQuery qId (Some Stopping) False)
             (w\<lparr>w_broadcastController := (w_broadcastController w)\<lparr>shouldStop := True\<rparr>\<rparr>)
      else emit (AnswerCallbackQuery qId (Some NothingToStop) True) w)"

text \<open>
  \<open>stopBroadcast\<close> is the branch \<^verbatim>\<open>stop_broadcast\<close> of the callback handler, which a stop
  request reaches once it has passed the handler's admin gate.
\<close>

definition unreachable :: "apiError \<Rightarrow> bool" where
  "unreachable err = (statusCode err = Some 403 \<or> statusCode err = Some 400)"

definition relay :: "env \<Rightarrow> message \<Rightarrow> user \<Rightarrow> nat \<times> nat \<times> world \<Rightarrow> nat \<times> nat \<times> world" where
  "relay e m u cbw =
     (case cbw of (count, blocked, w) \<Rightarrow>
        (let w1 = emit (CopyMessage (u_telegramId u) (msg_chat_id m) (msg_message_id m)) w in
         case copyMessage e (u_telegramId u) of
           None \<Rightarrow> (count + 1, blocked, w1)
         | Some err \<Rightarrow>
             if unreachable err
             then (count, blocked + 1,
                   w1\<lparr>w_users := updateOne (\<lambda>x. u_id x = u_id u)
                                   (\<lambda>x. x\<lparr>u_isActive := False\<rparr>) (w_users w1)\<rparr>)
             else (count, blocked, w1)))"

text \<open>
  \<open>relay\<close> is the \<^verbatim>\<open>try\<close>/\<^verbatim>\<open>catch\<close> of one iteration: the copy of the message to one
  recipient and the bookkeeping of its outcome.
\<close>

definition deliverStops :: "nat list \<Rightarrow> world \<Rightarrow> world" where
  "deliverStops qs w = foldl (\<lambda>w1 q. stopBroadcast q w1) w qs"

fun broadcastLoop :: "env \<Rightarrow> actor \<Rightarrow> message \<Rightarrow> user list \<Rightarrow> nat \<Rightarrow> nat \<Rightarrow> world
    \<Rightarrow> (nat \<times> nat) option \<times> world" where
  "broadcastLoop e adminId m [] count blocked w = (Some (count, blocked), w)"
| "broadcastLoop e adminId m (u # us) count blocked w =
     (if shouldStop (w_broadcastController w)
      then (None, safeSend e adminId (BroadcastStopped count)
                    (w\<lparr>w_broadcastController := (w_broadcastController w)\<lparr>isActive := False\<rparr>\<rparr>))
      else (case relay e m u (count, blocked, w) of
              (count1, blocked1, w1) \<Rightarrow>
                broadcastLoop e adminId m us count1 blocked1
                  (deliverStops (stopPresses e (Some (u_telegramId u))) w1)))"

text \<open>
  The loop returns \<open>None\<close> when it has stopped on the flag (it has then reported and
  returned), and the two counters when the cursor is exhausted.
\<close>

definition eligible :: "user \<Rightarrow> bool" where
  "eligible u = (\<not> u_isBanned u \<and> u_isActive u)"

definition startBroadcast :: "env \<Rightarrow> actor \<Rightarrow> message \<Rightarrow> world \<Rightarrow> unit res" where
  "startBroadcast e adminId m w =
     (if isActive (w_broadcastController w) then Ok () (safeSend e adminId AlreadyRunning w)
      else (let w1 = w\<lparr>w_broadcastController := \<lparr>isActive = True, shouldStop = False\<rparr>\<rparr>;
                w2 = deliverStops (stopPresses e None) (safeSend e adminId BroadcastStarted w1)
            in case broadcastLoop e adminId m (filter eligible (w_users w2)) 0 0 w2 of
                 (None, w3) \<Rightarrow> Ok () w3
               | (Some (count, blocked), w3) \<Rightarrow>
                   (let w4 = w3\<lparr>w_broadcastController :=
                                  (w_broadcastController w3)\<lparr>isActive := False\<rparr>\<rparr>
                    in case sentMessageId e adminId BroadcastStarted of
                         None \<Rightarrow> Err TypeError w4
                       | Some stopMsg \<Rightarrow>
                           Ok () (safeSend e adminId (BroadcastFinished count blocked)
                                   (safeDelete adminId (Some stopMsg) w4)))))"

text \<open>
  The cursor is the list of the users eligible when it is opened. The elapsed time in the
  final report, a formatted floating-point number, is left out of \<open>BroadcastFinished\<close>.
\<close>

subsection \<open>Section 4 of the source: the message handler\<close>

text \<open>
  Two parts of the message handler that no property below depends on are parameters of the
  model: \<^verbatim>\<open>handleMovieCodeRequest\<close>, and the commands the handler processes once the session
  block is passed (the birth-year prompt, \<^verbatim>\<open>/start\<close>, \<^verbatim>\<open>/admin\<close>, a content code).
\<close>

record rest =
  handleMovieCodeRequest :: "actor \<Rightarrow> string \<Rightarrow> user \<Rightarrow> world \<Rightarrow> unit res"
  commands :: "message \<Rightarrow> user \<Rightarrow> world \<Rightarrow> unit res"

definition freshUserId :: "user list \<Rightarrow> nat" where
  "freshUserId us = Suc (fold max (map u_id us) 0)"

definition upsertUser :: "actor \<Rightarrow> sender \<Rightarrow> world \<Rightarrow> user \<times> world" where
  "upsertUser chatId sndr w =
     (case find (\<lambda>u. u_telegramId u = chatId) (w_users w) of
        Some u \<Rightarrow>
          (u\<lparr>u_isActive := True\<rparr>,
           w\<lparr>w_users := updateOne (\<lambda>u. u_telegramId u = chatId)
                           (\<lambda>u. u\<lparr>u_isActive := True\<rparr>) (w_users w)\<rparr>)
      | None \<Rightarrow>
          (let u = \<lparr>u_id = freshUserId (w_users w), u_telegramId = chatId,
                    u_firstName = sanitize (from_first_name sndr),
                    u_username = from_username sndr, u_birthYear = None,
                    u_isBanned = False, u_isActive = True\<rparr>
           in (u, w\<lparr>w_users := w_users w @ [u]\<rparr>)))"

definition askBirthYear :: "env \<Rightarrow> rest \<Rightarrow> actor \<Rightarrow> string \<Rightarrow> user \<Rightarrow> session \<Rightarrow> world
    \<Rightarrow> unit res" where
  "askBirthYear e k chatId txt usr st w =
     (case parseInt txt of
        None \<Rightarrow> Ok () (safeSend e chatId (BadBirthYear (currentYear e)) w)
      | Some year \<Rightarrow>
          if year < 1950 \<or> year > currentYear e
          then Ok () (safeSend e chatId (BadBirthYear (currentYear e)) w)
          else if storeFails e UserSave then Err StoreError w
          else (let usr1 = usr\<lparr>u_birthYear := Some year\<rparr>;
                    w1 = w\<lparr>w_users := updateOne (\<lambda>u. u_id u = u_id usr) (\<lambda>u. usr1) (w_users w)\<rparr>;
                    w2 = safeSend e chatId BirthYearSaved (stateDelete chatId w1)
                in case s_pendingCode st of
                     None \<Rightarrow> Ok () w2
                   | Some pendingCode \<Rightarrow>
                       if pendingCode = [] then Ok () w2
                       else handleMovieCodeRequest k chatId pendingCode usr1 w2))"

definition sessionExpired :: "env \<Rightarrow> session \<Rightarrow> bool" where
  "sessionExpired e st = (now e - s_timestamp st > stateTTL)"

text \<open>
  \<open>sessionExpired\<close> is \<^verbatim>\<open>Date.now() - (st.timestamp || 0) > CONFIG.stateTTL\<close>; every
  \<^verbatim>\<open>state.set\<close> of the source stamps the session, so the timestamp is a number.
\<close>

definition messageBody :: "env \<Rightarrow> rest \<Rightarrow> message \<Rightarrow> world \<Rightarrow> unit res" where
  "messageBody e k msg w =
     (let chatId = msg_chat_id msg in
      case msg_from msg of
        None \<Rightarrow> Err TypeError w
      | Some sndr \<Rightarrow>
          if storeFails e UserUpsert then Err StoreError w
          else (case upsertUser chatId sndr w of
                  (usr, w1) \<Rightarrow>
                    if u_isBanned usr then Ok () w1
                    else (case w_state w1 chatId of
                            None \<Rightarrow> commands k msg usr w1
                          | Some st \<Rightarrow>
                              if sessionExpired e st
                              then Ok () (safeSend e chatId SessionExpired (stateDelete chatId w1))
                              else if s_action st = ASK_BIRTH_YEAR
                              then askBirthYear e k chatId (messageText msg) usr st w1
                              else await (isUserAdmin e chatId w1) (\<lambda>isAdmin w2.
                                     if isAdmin then handleAdminInput e chatId msg w2
                                     else commands k msg usr w2))))"

text \<open>The handler itself: the flood gate, then the \<^verbatim>\<open>try\<close> block, whose \<^verbatim>\<open>catch\<close> only logs.\<close>

definition onMessage :: "env \<Rightarrow> rest \<Rightarrow> message \<Rightarrow> world \<Rightarrow> world" where
  "onMessage e k msg w =
     (case isFlooding e (msg_chat_id msg) w of
        (True, w1) \<Rightarrow> w1
      | (False, w1) \<Rightarrow>
          (case messageBody e k msg w1 of
             Ok u w2 \<Rightarrow> w2
           | Err ex w2 \<Rightarrow> logError HandlerError w2))"

subsection \<open>Section 6 of the source: the callback handler\<close>

text \<open>
  The callbacks modelled are those of the wizard, of rating and of the broadcast controller.
  \<open>rate s\<close> stands for the callback data \<^verbatim>\<open>rate_\<close> followed by \<open>s\<close>; the other constructors
  are the callback data of the same name.
\<close>

datatype callbackData = cancel_action | rate string | start_add_movie | start_add_series
  | adult_yes | adult_no | admin_broadcast | confirm_broadcast | stop_broadcast

record callbackQuery =
  q_id :: nat
  q_chat_id :: actor
  q_message_id :: nat
  q_data :: callbackData

definition startAddContent :: "env \<Rightarrow> actor \<Rightarrow> nat \<Rightarrow> contentKind \<Rightarrow> world \<Rightarrow> world" where
  "startAddContent e chatId msgId ty w =
     safeSend e chatId (AskVideo ty)
       (safeDelete chatId (Some msgId)
         (stateSet chatId
            \<lparr>s_action = ADD_CONTENT, s_step = Some VIDEO, s_data = None,
             s_contentType = Some ty, s_permissionRequired = Some movies,
             s_timestamp = now e, s_pendingCode = None, s_movieId = None, s_field = None,
             s_tempEpisodeData = None, s_type = None, s_msg = None\<rparr> w))"

definition adultFlag :: "env \<Rightarrow> actor \<Rightarrow> nat \<Rightarrow> bool \<Rightarrow> world \<Rightarrow> unit res" where
  "adultFlag e chatId msgId yes w =
     (case w_state w chatId of
        None \<Rightarrow> Ok () w
      | Some st \<Rightarrow>
          if s_action st = ADD_CONTENT
          then (case s_data st of
                  None \<Rightarrow> Err TypeError w
                | Some d \<Rightarrow>
                    Ok () (safeSend e chatId AskCode
                            (safeDelete chatId (Some msgId)
                              (stateSet chatId
                                 (st\<lparr>s_data := Some (d\<lparr>d_isAdult := Some yes\<rparr>),
                                     s_step := Some CODE\<rparr>) w))))
          else Ok () w)"

definition adminBroadcast :: "env \<Rightarrow> actor \<Rightarrow> world \<Rightarrow> unit res" where
  "adminBroadcast e chatId w =
     await (hasPermission e chatId broadcast w) (\<lambda>allowed w1.
       if \<not> allowed then Ok () w1
       else Ok () (safeSend e chatId AskBroadcastPost
              (stateSet chatId
                 \<lparr>s_action = BROADCAST, s_step = None, s_data = None, s_contentType = None,
                  s_permissionRequired = Some broadcast, s_timestamp = now e,
                  s_pendingCode = None, s_movieId = None, s_field = None,
                  s_tempEpisodeData = None, s_type = None, s_msg = None\<rparr> w1)))"

definition confirmBroadcast :: "env \<Rightarrow> actor \<Rightarrow> nat \<Rightarrow> world \<Rightarrow> unit res" where
  "confirmBroadcast e chatId msgId w =
     (case w_state w chatId of
        None \<Rightarrow> Ok () w
      | Some st \<Rightarrow>
          (case s_msg st of
             None \<Rightarrow> Ok () w
           | Some m \<Rightarrow>
               (case startBroadcast e chatId m
                       (safeDelete chatId (Some msgId) (stateDelete chatId w)) of
                  Ok u w1 \<Rightarrow> Ok () w1
                | Err ex w1 \<Rightarrow> Ok () (logError UnhandledRejection w1))))"

text \<open>
  \<^verbatim>\<open>startBroadcast\<close> is called without \<^verbatim>\<open>await\<close>: the model runs the job to its end at the
  call, and a rejection of it reaches the process-level hook, not the handler's \<^verbatim>\<open>catch\<close>.
\<close>

definition callbackBody :: "env \<Rightarrow> callbackQuery \<Rightarrow> world \<Rightarrow> unit res" where
  "callbackBody e q w =
     (let chatId = q_chat_id q; msgId = q_message_id q in
      case q_data q of
        cancel_action \<Rightarrow>
          await (isUserAdmin e chatId (safeDelete chatId (Some msgId) (stateDelete chatId w)))
            (\<lambda>isAdmin w1.
               Ok () (if isAdmin then emit (Render chatId AdminPanel) w1
                      else emit (SendMessage chatId ActionCancelled) w1))
      | rate s \<Rightarrow>
          await (handleRating e chatId (''rate_'' @ s) (q_id q) w) (\<lambda>u w1.
            await (isUserAdmin e chatId w1) (\<lambda>isAdmin w2. Ok () w2))
      | dat \<Rightarrow>
          await (isUserAdmin e chatId w) (\<lambda>isAdmin w1.
            if \<not> isAdmin then Ok () w1
            else (case dat of
                    start_add_movie \<Rightarrow> Ok () (startAddContent e chatId msgId movie w1)
                  | start_add_series \<Rightarrow> Ok () (startAddContent e chatId msgId series w1)
                  | adult_yes \<Rightarrow> adultFlag e chatId msgId True w1
                  | adult_no \<Rightarrow> adultFlag e chatId msgId False w1
                  | admin_broadcast \<Rightarrow> adminBroadcast e chatId w1
                  | confirm_broadcast \<Rightarrow> confirmBroadcast e chatId msgId w1
                  | stop_broadcast \<Rightarrow> Ok () (stopBroadcast (q_id q) w1)
                  | _ \<Rightarrow> Ok () w1)))"

definition onCallbackQuery :: "env \<Rightarrow> callbackQuery \<Rightarrow> world \<Rightarrow> world" where
  "onCallbackQuery e q w =
     (case callbackBody e q w of
        Ok u w1 \<Rightarrow> w1
      | Err ex w1 \<Rightarrow>
          emit (AnswerCallbackQuery (q_id q) (Some CallbackSystemError) False)
            (logError CallbackError w1))"

subsection \<open>Concrete inputs\<close>

text \<open>
  An empty world, an outside that answers every call with success, and messages of each
  kind; the concrete instances below are built from them.
\<close>

definition world0 :: world where
  "world0 = \<lparr>w_floodMap = Map.empty, w_state = Map.empty, w_adminCache = Map.empty,
     w_broadcastController = \<lparr>isActive = False, shouldStop = False\<rparr>,
     w_users = [], w_movies = [], w_channels = [], w_admins = [], w_settings = None,
     w_outbox = [], w_console = []\<rparr>"

definition env0 :: env where
  "env0 = \<lparr>superAdminId = 1, now = 1700000000000, currentYear = 2024,
     sendMessage = (\<lambda>c n. Inr 1), copyMessage = (\<lambda>c. None),
     getChatMember = (\<lambda>c u. Inr ''member''), getChat = (\<lambda>n. Inr (- 1001)),
     sendPhoto = (\<lambda>c. None), storeFails = (\<lambda>x. False), stopPresses = (\<lambda>x. [])\<rparr>"

definition rest0 :: rest where
  "rest0 = \<lparr>handleMovieCodeRequest = (\<lambda>c s u w. Ok () w), commands = (\<lambda>m u w. Ok () w)\<rparr>"

definition textMessage :: "actor \<Rightarrow> string \<Rightarrow> message" where
  "textMessage chatId t = \<lparr>msg_chat_id = chatId, msg_message_id = 1,
     msg_from = Some \<lparr>from_first_name = Some ''Ali'', from_username = None\<rparr>,
     msg_text = Some t, msg_caption = None, msg_photo = None, msg_video = None\<rparr>"

text \<open>
  \<open>isBannedActor chatId w\<close>: the store holds a user record of \<open>chatId\<close> and it is banned.
\<close>

definition isBannedActor :: "actor \<Rightarrow> world \<Rightarrow> bool" where
  "isBannedActor chatId w =
     (case find (\<lambda>u. u_telegramId u = chatId) (w_users w) of
        None \<Rightarrow> False
      | Some u \<Rightarrow> u_isBanned u)"

text \<open>
  \<open>afterGates e msg sndr w\<close> is the world in which the session block of the message handler
  runs: the flood gate has stamped the actor and the user record has been upserted.
\<close>

definition afterGates :: "env \<Rightarrow> message \<Rightarrow> sender \<Rightarrow> world \<Rightarrow> world" where
  "afterGates e msg sndr w =
     snd (upsertUser (msg_chat_id msg) sndr
            (w\<lparr>w_floodMap := (w_floodMap w)(msg_chat_id msg \<mapsto> now e)\<rparr>))"

text \<open>
  A session stamped one millisecond more than the TTL before the clock of \<open>env0\<close>, and worlds
  in which actor 7 holds it, banned and not banned.
\<close>

definition oldSession :: session where
  "oldSession = \<lparr>s_action = ADD_CONTENT, s_step = Some TITLE,
     s_data = Some (emptyDraft\<lparr>d_fileId := Some ''f1'', d_posterId := Some ''p1''\<rparr>),
     s_contentType = Some movie, s_permissionRequired = Some movies,
     s_timestamp = 1700000000000 - 1800001, s_pendingCode = None, s_movieId = None,
     s_field = None, s_tempEpisodeData = None, s_type = None, s_msg = None\<rparr>"

definition someUser :: "actor \<Rightarrow> bool \<Rightarrow> user" where
  "someUser tid banned = \<lparr>u_id = 1, u_telegramId = tid, u_firstName = ''Ali'',
     u_username = None, u_birthYear = Some 2000, u_isBanned = banned, u_isActive = True\<rparr>"

definition bannedWorld :: world where
  "bannedWorld = world0\<lparr>w_users := [someUser 7 True], w_state := [7 \<mapsto> oldSession]\<rparr>"

definition staleWorld :: world where
  "staleWorld = world0\<lparr>w_users := [someUser 7 False], w_state := [7 \<mapsto> oldSession]\<rparr>"

subsection \<open>Vocabulary for the broadcast properties\<close>

text \<open>
  \<open>worldOf r\<close> is the world a handler leaves, whether it returned or threw.
\<close>

definition worldOf :: "'a res \<Rightarrow> world" where
  "worldOf r = (case r of Ok x w \<Rightarrow> w | Err ex w \<Rightarrow> w)"

text \<open>
  \<open>copies rs\<close> are the relay requests among \<open>rs\<close>, and \<open>copyTo m u\<close> is the relay of the
  message \<open>m\<close> to the recipient \<open>u\<close>.
\<close>

fun isCopy :: "request \<Rightarrow> bool" where
  "isCopy (CopyMessage a b c) = True"
| "isCopy r = False"

definition copies :: "request list \<Rightarrow> request list" where
  "copies rs = filter isCopy rs"

definition copyTo :: "message \<Rightarrow> user \<Rightarrow> request" where
  "copyTo m u = CopyMessage (u_telegramId u) (msg_chat_id m) (msg_message_id m)"

text \<open>
  The three outcomes of a relay as the loop classifies them: delivered, recipient unreachable
  (the error carries status 403 or 400), and any other failure.
\<close>

definition deliveredTo :: "env \<Rightarrow> user \<Rightarrow> bool" where
  "deliveredTo e u = (copyMessage e (u_telegramId u) = None)"

definition unreachableFor :: "env \<Rightarrow> user \<Rightarrow> bool" where
  "unreachableFor e u =
     (case copyMessage e (u_telegramId u) of None \<Rightarrow> False | Some err \<Rightarrow> unreachable err)"

definition markInactive :: "user \<Rightarrow> user" where
  "markInactive x = x\<lparr>u_isActive := False\<rparr>"

text \<open>
  \<open>others chatId us\<close> are the records of the users other than \<open>chatId\<close>; \<open>bounced403 e chatId n\<close>
  says that the notice \<open>n\<close> to \<open>chatId\<close> is rejected with status 403.
\<close>

definition others :: "actor \<Rightarrow> user list \<Rightarrow> user list" where
  "others chatId us = filter (\<lambda>u. u_telegramId u \<noteq> chatId) us"

definition bounced403 :: "env \<Rightarrow> actor \<Rightarrow> notice \<Rightarrow> bool" where
  "bounced403 e chatId n =
     (case sendMessage e chatId n of Inr sent \<Rightarrow> False | Inl err \<Rightarrow> statusCode err = Some 403)"

text \<open>
  \<open>relayWorld\<close> is the effect of one relay on the world, \<open>relayAll\<close> the relays to a list of
  recipients in order, and \<open>markUnreachable e us\<close> marks a stored record inactive when a
  recipient of \<open>us\<close> with its \<^verbatim>\<open>_id\<close> is unreachable.
\<close>

definition relayWorld :: "env \<Rightarrow> message \<Rightarrow> user \<Rightarrow> world \<Rightarrow> world" where
  "relayWorld e m u w =
     (if unreachableFor e u
      then (emit (copyTo m u) w)\<lparr>w_users := updateOne (\<lambda>x. u_id x = u_id u) markInactive (w_users w)\<rparr>
      else emit (copyTo m u) w)"



text \<open>
  A broadcast payload, five eligible users of whom the second and the fourth are unreachable
  (a sixth fails with status 500), worlds with a job running and with a stop requested, and
  outsides in which an admin presses stop during the second relay, and in which every
  notice bounces with status 403.
\<close>

definition adMessage :: message where
  "adMessage = textMessage 1 ''ad''"

definition recipient :: "nat \<Rightarrow> user" where
  "recipient i = \<lparr>u_id = i, u_telegramId = 10 + int i, u_firstName = ''U'',
     u_username = None, u_birthYear = Some 2000, u_isBanned = False, u_isActive = True\<rparr>"

definition fiveUsers :: "user list" where
  "fiveUsers = [recipient 1, recipient 2, recipient 3, recipient 4, recipient 5]"

definition env5 :: env where
  "env5 = env0\<lparr>copyMessage := (\<lambda>c. if c = 12 then Some \<lparr>statusCode = Some 403\<rparr>
                               else if c = 14 then Some \<lparr>statusCode = Some 400\<rparr>
                               else if c = 16 then Some \<lparr>statusCode = Some 500\<rparr>
                               else None)\<rparr>"

definition world5 :: world where
  "world5 = world0\<lparr>w_users := fiveUsers\<rparr>"

definition runningWorld :: world where
  "runningWorld = world5\<lparr>w_broadcastController := \<lparr>isActive = True, shouldStop = False\<rparr>\<rparr>"

definition stoppingWorld :: world where
  "stoppingWorld = world5\<lparr>w_broadcastController := \<lparr>isActive = True, shouldStop = True\<rparr>\<rparr>"

definition envStop :: env where
  "envStop = env0\<lparr>stopPresses := (\<lambda>x. if x = Some 12 then [77] else [])\<rparr>"

definition env403 :: env where
  "env403 = env0\<lparr>sendMessage := (\<lambda>c n. Inl \<lparr>statusCode = Some 403\<rparr>)\<rparr>"

subsection \<open>Vocabulary for the subscription and rating properties\<close>

text \<open>
  \<open>resultOf r\<close> is the value a handler returned, \<open>None\<close> when it threw.
\<close>

definition resultOf :: "'a res \<Rightarrow> 'a option" where
  "resultOf r = (case r of Ok x w \<Rightarrow> Some x | Err ex w \<Rightarrow> None)"

text \<open>
  For one channel, what the transport answers to the membership query: the status
  \<^verbatim>\<open>left\<close> or \<^verbatim>\<open>kicked\<close>, or an error; and the query and the log entry the check produces.
\<close>

definition leftOrKicked :: "env \<Rightarrow> actor \<Rightarrow> channel \<Rightarrow> bool" where
  "leftOrKicked e userId ch =
     (case getChatMember e (ch_channelId ch) userId of
        Inl err \<Rightarrow> False
      | Inr status \<Rightarrow> status \<in> set [''left'', ''kicked''])"

definition erroring :: "env \<Rightarrow> actor \<Rightarrow> channel \<Rightarrow> bool" where
  "erroring e userId ch =
     (case getChatMember e (ch_channelId ch) userId of Inl err \<Rightarrow> True | Inr status \<Rightarrow> False)"

definition membershipQuery :: "actor \<Rightarrow> channel \<Rightarrow> request" where
  "membershipQuery userId ch = GetChatMember (ch_channelId ch) userId"

definition subscriptionLog :: "channel \<Rightarrow> logEntry" where
  "subscriptionLog ch = SubscriptionError (ch_channelId ch)"



text \<open>
  Four required channels, of which the actor has left the first, the second cannot be
  queried, and the actor was kicked from the third; two content records.
\<close>

definition someChannel :: "string \<Rightarrow> channel" where
  "someChannel cid = \<lparr>ch_channelId = cid, ch_name = Some ''Kino'', ch_url = ''https://t.me/kino'',
     ch_type = main\<rparr>"

definition envChannels :: env where
  "envChannels = env0\<lparr>getChatMember := (\<lambda>c u. if c = ''-1001'' then Inr ''left''
       else if c = ''-1002'' then Inl \<lparr>statusCode = Some 403\<rparr>
       else if c = ''-1003'' then Inr ''kicked''
       else Inr ''member'')\<rparr>"

definition channelWorld :: world where
  "channelWorld = world0\<lparr>w_channels := [someChannel ''-1001'', someChannel ''-1002'',
     someChannel ''-1003'', someChannel ''-1004'']\<rparr>"







subsection \<open>Vocabulary and concrete inputs for the wizard properties\<close>

text \<open>
  A video without caption, a photo without caption, a pressed inline button, and the
  AddContent run of the spec's example: start, video, poster, three texts, the adult flag and
  the code, each input one second after the previous one, the first at second \<open>t\<close>.
\<close>

definition videoMessage :: message where
  "videoMessage = \<lparr>msg_chat_id = 1, msg_message_id = 2,
     msg_from = Some \<lparr>from_first_name = Some ''Ali'', from_username = None\<rparr>,
     msg_text = None, msg_caption = None, msg_photo = None,
     msg_video = Some \<lparr>v_file_id = ''v1'', v_width = 1280, v_duration = 5400\<rparr>\<rparr>"

definition photoMessage :: message where
  "photoMessage = \<lparr>msg_chat_id = 1, msg_message_id = 3,
     msg_from = Some \<lparr>from_first_name = Some ''Ali'', from_username = None\<rparr>,
     msg_text = None, msg_caption = None, msg_photo = Some [''p_small'', ''p_big''],
     msg_video = None\<rparr>"

definition pressed :: "callbackData \<Rightarrow> callbackQuery" where
  "pressed d = \<lparr>q_id = 5, q_chat_id = 1, q_message_id = 10, q_data = d\<rparr>"

definition envAt :: "int \<Rightarrow> env" where
  "envAt t = env0\<lparr>now := 1700000000000 + 1000 * t\<rparr>"

definition parasyteRun :: "int \<Rightarrow> world \<Rightarrow> world" where
  "parasyteRun t w =
     (let w1 = onCallbackQuery (envAt t) (pressed start_add_movie) w;
          w2 = onMessage (envAt (t + 1)) rest0 videoMessage w1;
          w3 = onMessage (envAt (t + 2)) rest0 photoMessage w2;
          w4 = onMessage (envAt (t + 3)) rest0 (textMessage 1 ''Parasyte'') w3;
          w5 = onMessage (envAt (t + 4)) rest0 (textMessage 1 ''Japan'') w4;
          w6 = onMessage (envAt (t + 5)) rest0 (textMessage 1 ''Japanese'') w5;
          w7 = onCallbackQuery (envAt (t + 6)) (pressed adult_no) w6
      in onMessage (envAt (t + 7)) rest0 (textMessage 1 ''4242'') w7)"

definition parasyte :: movieDoc where
  "parasyte = \<lparr>m_id = 1, m_code = 4242, m_contentType = movie,
     m_title = Some ''Parasyte'', m_posterId = Some ''p_big'', m_country = Some ''Japan'',
     m_language = Some ''Japanese'', m_quality = Some ''720p HD'', m_duration = Some ''1:30:00'',
     m_isAdult = False, m_fileId = Some ''v1'', m_episodes = [], m_ratingSum = 0,
     m_ratingCount = 0, m_ratedUsers = [], m_addedBy = 1\<rparr>"

text \<open>
  The step and the draft of an actor's session, and the stored records with a given code.
\<close>

definition stepOf :: "world \<Rightarrow> actor \<Rightarrow> step option" where
  "stepOf w chatId = (case w_state w chatId of None \<Rightarrow> None | Some st \<Rightarrow> s_step st)"

definition draftOf :: "world \<Rightarrow> actor \<Rightarrow> draft option" where
  "draftOf w chatId = (case w_state w chatId of None \<Rightarrow> None | Some st \<Rightarrow> s_data st)"

definition withCode :: "int \<Rightarrow> movieDoc list \<Rightarrow> movieDoc list" where
  "withCode code ms = filter (\<lambda>m. m_code m = code) ms"

text \<open>
  An AddContent session of a movie at a given step with a given draft, the draft of the
  example when complete, a world holding only that session, and an outside whose store
  rejects every operation.
\<close>

definition wizardSession :: "step \<Rightarrow> draft option \<Rightarrow> session" where
  "wizardSession stp d = \<lparr>s_action = ADD_CONTENT, s_step = Some stp, s_data = d,
     s_contentType = Some movie, s_permissionRequired = Some movies,
     s_timestamp = 1700000000000, s_pendingCode = None, s_movieId = None,
     s_field = None, s_tempEpisodeData = None, s_type = None, s_msg = None\<rparr>"

definition parasyteDraft :: draft where
  "parasyteDraft = \<lparr>d_fileId = Some ''v1'', d_quality = Some ''720p HD'',
     d_duration = Some ''1:30:00'', d_posterId = Some ''p_big'', d_title = Some ''Parasyte'',
     d_country = Some ''Japan'', d_language = Some ''Japanese'', d_isAdult = Some False,
     d_name = None\<rparr>"

definition wizardWorld :: "actor \<Rightarrow> step \<Rightarrow> draft option \<Rightarrow> world" where
  "wizardWorld chatId stp d = world0\<lparr>w_state := [chatId \<mapsto> wizardSession stp d]\<rparr>"

definition envDown :: env where
  "envDown = env0\<lparr>storeFails := (\<lambda>x. True)\<rparr>"

text \<open>
  The worlds the example's run passes through: the actor's last accepted message at second
  \<open>t0\<close>, the session if any, the content records and the requests issued so far.
\<close>

definition clockAt :: "int \<Rightarrow> time" where
  "clockAt t = 1700000000000 + 1000 * t"

definition ali :: user where
  "ali = \<lparr>u_id = 1, u_telegramId = 1, u_firstName = ''Ali'', u_username = None,
     u_birthYear = None, u_isBanned = False, u_isActive = True\<rparr>"

definition sessionAt :: "int \<Rightarrow> step \<Rightarrow> draft option \<Rightarrow> session" where
  "sessionAt t stp d = (wizardSession stp d)\<lparr>s_timestamp := clockAt t\<rparr>"

definition runWorld :: "int \<Rightarrow> session option \<Rightarrow> movieDoc list \<Rightarrow> request list \<Rightarrow> world" where
  "runWorld t0 st ms obx = world0\<lparr>w_floodMap := [1 \<mapsto> clockAt t0],
     w_state := (case st of None \<Rightarrow> Map.empty | Some x \<Rightarrow> [1 \<mapsto> x]),
     w_users := [ali], w_movies := ms, w_outbox := obx\<rparr>"

definition draftAfter :: "step \<Rightarrow> draft" where
  "draftAfter stp =
     (case stp of
        VIDEO \<Rightarrow> emptyDraft\<lparr>d_fileId := Some ''v1'', d_quality := Some ''720p HD'',
                   d_duration := Some ''1:30:00''\<rparr>
      | POSTER \<Rightarrow> parasyteDraft\<lparr>d_title := None, d_country := None, d_language := None,
                    d_isAdult := None\<rparr>
      | TITLE \<Rightarrow> parasyteDraft\<lparr>d_country := None, d_language := None, d_isAdult := None\<rparr>
      | COUNTRY \<Rightarrow> parasyteDraft\<lparr>d_language := None, d_isAdult := None\<rparr>
      | LANG \<Rightarrow> parasyteDraft\<lparr>d_isAdult := None\<rparr>
      | _ \<Rightarrow> parasyteDraft)"

text \<open>
  Sessions of the field editor and of the episode wizard on the stored record 1, and the
  content type of the record a session points to.
\<close>

definition editSession :: "string \<Rightarrow> session" where
  "editSession fld = \<lparr>s_action = EDIT_FIELD, s_step = None, s_data = None,
     s_contentType = None, s_permissionRequired = Some movies,
     s_timestamp = 1700000000000, s_pendingCode = None, s_movieId = Some 1,
     s_field = Some fld, s_tempEpisodeData = None, s_type = None, s_msg = None\<rparr>"

definition episodeSession :: session where
  "episodeSession = \<lparr>s_action = ADD_EPISODE, s_step = Some VIDEO, s_data = None,
     s_contentType = None, s_permissionRequired = Some movies,
     s_timestamp = 1700000000000, s_pendingCode = None, s_movieId = Some 1,
     s_field = None, s_tempEpisodeData = None, s_type = None, s_msg = None\<rparr>"

definition sessionWorld :: "session \<Rightarrow> world" where
  "sessionWorld st = world0\<lparr>w_state := [1 \<mapsto> st], w_movies := [parasyte]\<rparr>"

definition storedKind :: "session \<Rightarrow> world \<Rightarrow> contentKind option" where
  "storedKind st w = map_option m_contentType (findById (s_movieId st) (w_movies w))"



section \<open>Properties\<close>

subsection \<open>Rate limiter\<close>

text \<open>
  C3. The generic flood check throttles, leaving the stored timestamp as it is, when the time
  elapsed since the actor's last recorded action (taken as 0 when none is recorded, as the
  source does) is strictly below the window; otherwise it records the current time and lets
  the input through. Consequently, once an input has been let through at time \<open>now e\<close>, an
  input of the same actor arriving less than the window later is dropped by the message
  handler: the world is unchanged, so nothing is replied.
\<close>

theorem isFlooding_window:
  "(now e - lastAction (w_floodMap w) userId < floodLimit
      \<longrightarrow> isFlooding e userId w = (True, w)) \<and>
   (\<not> now e - lastAction (w_floodMap w) userId < floodLimit
      \<longrightarrow> isFlooding e userId w = (False, w\<lparr>w_floodMap := (w_floodMap w)(userId \<mapsto> now e)\<rparr>)) \<and>
   (isFlooding e userId w = (False, w1) \<and> w_floodMap w2 userId = w_floodMap w1 userId
      \<and> msg_chat_id msg = userId \<and> now e2 - now e < floodLimit
      \<longrightarrow> onMessage e2 k msg w2 = w2)"
proof (intro conjI impI)
  assume "now e - lastAction (w_floodMap w) userId < floodLimit"
  then show "isFlooding e userId w = (True, w)"
    by (simp add: isFlooding_def)
next
  assume "\<not> now e - lastAction (w_floodMap w) userId < floodLimit"
  then show "isFlooding e userId w = (False, w\<lparr>w_floodMap := (w_floodMap w)(userId \<mapsto> now e)\<rparr>)"
    by (simp add: isFlooding_def)
next
  assume a: "isFlooding e userId w = (False, w1) \<and> w_floodMap w2 userId = w_floodMap w1 userId
      \<and> msg_chat_id msg = userId \<and> now e2 - now e < floodLimit"
  then have "w_floodMap w1 userId = Some (now e)"
    by (auto simp: isFlooding_def split: if_splits)
  with a have "lastAction (w_floodMap w2) (msg_chat_id msg) = now e"
    by (simp add: lastAction_def)
  with a have "isFlooding e2 (msg_chat_id msg) w2 = (True, w2)"
    by (simp add: isFlooding_def)
  then show "onMessage e2 k msg w2 = w2"
    by (simp add: onMessage_def)
qed

theorem isFlooding_window_witness:
  "isFlooding env0 7 world0 = (False, world0\<lparr>w_floodMap := [7 \<mapsto> 1700000000000]\<rparr>)
   \<and> isFlooding (env0\<lparr>now := 1700000000500\<rparr>) 7 (world0\<lparr>w_floodMap := [7 \<mapsto> 1700000000000]\<rparr>)
       = (True, world0\<lparr>w_floodMap := [7 \<mapsto> 1700000000000]\<rparr>)
   \<and> onMessage (env0\<lparr>now := 1700000000500\<rparr>) rest0 (textMessage 7 ''42'')
        (world0\<lparr>w_floodMap := [7 \<mapsto> 1700000000000]\<rparr>)
       = world0\<lparr>w_floodMap := [7 \<mapsto> 1700000000000]\<rparr>"
proof -
  let ?w1 = "world0\<lparr>w_floodMap := [7 \<mapsto> 1700000000000]\<rparr>"
  let ?e2 = "env0\<lparr>now := 1700000000500\<rparr>"
  have a: "\<not> now env0 - lastAction (w_floodMap world0) 7 < floodLimit"
    by (simp add: env0_def world0_def lastAction_def floodLimit_def)
  have b: "now ?e2 - lastAction (w_floodMap ?w1) 7 < floodLimit"
    by (simp add: env0_def world0_def lastAction_def floodLimit_def)
  have c: "world0\<lparr>w_floodMap := (w_floodMap world0)(7 \<mapsto> now env0)\<rparr> = ?w1"
    by (simp add: env0_def world0_def)
  have first: "isFlooding env0 7 world0 = (False, ?w1)"
    using isFlooding_window [of env0 world0 7] a c by simp
  have second: "isFlooding ?e2 7 ?w1 = (True, ?w1)"
    using isFlooding_window [of ?e2 ?w1 7] b by simp
  have d: "msg_chat_id (textMessage 7 ''42'') = 7 \<and> now ?e2 - now env0 < floodLimit"
    by (simp add: textMessage_def env0_def floodLimit_def)
  have "isFlooding env0 7 world0 = (False, ?w1) \<and> w_floodMap ?w1 7 = w_floodMap ?w1 7
      \<and> msg_chat_id (textMessage 7 ''42'') = 7 \<and> now ?e2 - now env0 < floodLimit"
    using first d by simp
  then have third: "onMessage ?e2 rest0 (textMessage 7 ''42'') ?w1 = ?w1"
    using isFlooding_window [of env0 world0 7 ?w1 ?w1 "textMessage 7 ''42''" ?e2 rest0]
    by blast
  show ?thesis using first second third by simp
qed

subsection \<open>Effects on the fields of the world\<close>

lemma emit_fields [simp]:
  "w_floodMap (emit r w) = w_floodMap w"
  "w_state (emit r w) = w_state w"
  "w_adminCache (emit r w) = w_adminCache w"
  "w_broadcastController (emit r w) = w_broadcastController w"
  "w_users (emit r w) = w_users w"
  "w_movies (emit r w) = w_movies w"
  "w_channels (emit r w) = w_channels w"
  "w_admins (emit r w) = w_admins w"
  "w_settings (emit r w) = w_settings w"
  "w_outbox (emit r w) = w_outbox w @ [r]"
  "w_console (emit r w) = w_console w"
  by (simp_all add: emit_def)

lemma logError_fields [simp]:
  "w_floodMap (logError l w) = w_floodMap w"
  "w_state (logError l w) = w_state w"
  "w_adminCache (logError l w) = w_adminCache w"
  "w_broadcastController (logError l w) = w_broadcastController w"
  "w_users (logError l w) = w_users w"
  "w_movies (logError l w) = w_movies w"
  "w_channels (logError l w) = w_channels w"
  "w_admins (logError l w) = w_admins w"
  "w_settings (logError l w) = w_settings w"
  "w_outbox (logError l w) = w_outbox w"
  "w_console (logError l w) = w_console w @ [l]"
  by (simp_all add: logError_def)

lemma stateDelete_fields [simp]:
  "w_floodMap (stateDelete c w) = w_floodMap w"
  "w_state (stateDelete c w) = (w_state w)(c := None)"
  "w_adminCache (stateDelete c w) = w_adminCache w"
  "w_broadcastController (stateDelete c w) = w_broadcastController w"
  "w_users (stateDelete c w) = w_users w"
  "w_movies (stateDelete c w) = w_movies w"
  "w_channels (stateDelete c w) = w_channels w"
  "w_admins (stateDelete c w) = w_admins w"
  "w_settings (stateDelete c w) = w_settings w"
  "w_outbox (stateDelete c w) = w_outbox w"
  "w_console (stateDelete c w) = w_console w"
  by (simp_all add: stateDelete_def)

lemma stateSet_fields [simp]:
  "w_floodMap (stateSet c st w) = w_floodMap w"
  "w_state (stateSet c st w) = (w_state w)(c \<mapsto> st)"
  "w_adminCache (stateSet c st w) = w_adminCache w"
  "w_broadcastController (stateSet c st w) = w_broadcastController w"
  "w_users (stateSet c st w) = w_users w"
  "w_movies (stateSet c st w) = w_movies w"
  "w_channels (stateSet c st w) = w_channels w"
  "w_admins (stateSet c st w) = w_admins w"
  "w_settings (stateSet c st w) = w_settings w"
  "w_outbox (stateSet c st w) = w_outbox w"
  "w_console (stateSet c st w) = w_console w"
  by (simp_all add: stateSet_def)

lemma safeSend_fields [simp]:
  "w_floodMap (safeSend e c n w) = w_floodMap w"
  "w_state (safeSend e c n w) = w_state w"
  "w_adminCache (safeSend e c n w) = w_adminCache w"
  "w_broadcastController (safeSend e c n w) = w_broadcastController w"
  "w_movies (safeSend e c n w) = w_movies w"
  "w_channels (safeSend e c n w) = w_channels w"
  "w_admins (safeSend e c n w) = w_admins w"
  "w_settings (safeSend e c n w) = w_settings w"
  "w_outbox (safeSend e c n w) = w_outbox w @ [SendMessage c n]"
  "w_console (safeSend e c n w) = w_console w"
  by (simp_all add: safeSend_def Let_def split: sum.splits)

lemma safeDelete_fields [simp]:
  "w_floodMap (safeDelete c i w) = w_floodMap w"
  "w_state (safeDelete c i w) = w_state w"
  "w_adminCache (safeDelete c i w) = w_adminCache w"
  "w_broadcastController (safeDelete c i w) = w_broadcastController w"
  "w_users (safeDelete c i w) = w_users w"
  "w_movies (safeDelete c i w) = w_movies w"
  "w_channels (safeDelete c i w) = w_channels w"
  "w_admins (safeDelete c i w) = w_admins w"
  "w_settings (safeDelete c i w) = w_settings w"
  "w_console (safeDelete c i w) = w_console w"
  by (simp_all add: safeDelete_def split: option.splits)

lemma upsertUser_not_banned:
  "\<not> isBannedActor chatId w \<Longrightarrow> \<not> u_isBanned (fst (upsertUser chatId sndr w))"
  by (simp add: isBannedActor_def upsertUser_def Let_def split: option.splits)

lemma upsertUser_banned:
  "isBannedActor chatId w \<Longrightarrow> u_isBanned (fst (upsertUser chatId sndr w))"
  by (simp add: isBannedActor_def upsertUser_def Let_def split: option.splits)

lemma upsertUser_fields [simp]:
  "w_floodMap (snd (upsertUser c s w)) = w_floodMap w"
  "w_state (snd (upsertUser c s w)) = w_state w"
  "w_adminCache (snd (upsertUser c s w)) = w_adminCache w"
  "w_broadcastController (snd (upsertUser c s w)) = w_broadcastController w"
  "w_movies (snd (upsertUser c s w)) = w_movies w"
  "w_channels (snd (upsertUser c s w)) = w_channels w"
  "w_admins (snd (upsertUser c s w)) = w_admins w"
  "w_settings (snd (upsertUser c s w)) = w_settings w"
  "w_outbox (snd (upsertUser c s w)) = w_outbox w"
  "w_console (snd (upsertUser c s w)) = w_console w"
  by (simp_all add: upsertUser_def Let_def split: option.splits)

subsection \<open>Session expiry\<close>

text \<open>
  C2, as amended. The flood gate, the upsert of the sender's user record and the ban gate run
  before the session block. For every inbound message that passes the flood gate, from a
  sender who is not banned and whose record the store returns, if the stored session's age
  \<open>now - timestamp\<close> is strictly greater than the 30-minute TTL, then the handler does
  nothing but delete the session and send the expiry notice: the result does not depend on
  the wizard, no other session changes, and no movie, channel or admin record is written.
\<close>

theorem expired_session_rejected:
  assumes gate: "\<not> now e - lastAction (w_floodMap w) (msg_chat_id msg) < floodLimit"
    and sender: "msg_from msg = Some sndr"
    and store: "\<not> storeFails e UserUpsert"
    and ban: "\<not> isBannedActor (msg_chat_id msg) w"
    and sess: "w_state w (msg_chat_id msg) = Some st"
    and old: "now e - s_timestamp st > stateTTL"
  shows "onMessage e k msg w =
           safeSend e (msg_chat_id msg) SessionExpired
             (stateDelete (msg_chat_id msg) (afterGates e msg sndr w))
         \<and> w_state (onMessage e k msg w) = (w_state w)((msg_chat_id msg) := None)
         \<and> w_outbox (onMessage e k msg w) = w_outbox w @ [SendMessage (msg_chat_id msg) SessionExpired]
         \<and> w_movies (onMessage e k msg w) = w_movies w
         \<and> w_channels (onMessage e k msg w) = w_channels w
         \<and> w_admins (onMessage e k msg w) = w_admins w"
proof -
  let ?c = "msg_chat_id msg"
  let ?w1 = "w\<lparr>w_floodMap := (w_floodMap w)(?c \<mapsto> now e)\<rparr>"
  have fl: "isFlooding e ?c w = (False, ?w1)"
    using gate by (simp add: isFlooding_def)
  obtain usr w2 where up: "upsertUser ?c sndr ?w1 = (usr, w2)"
    by (cases "upsertUser ?c sndr ?w1")
  have "\<not> isBannedActor ?c ?w1" using ban by (simp add: isBannedActor_def)
  then have nb: "\<not> u_isBanned usr"
    using upsertUser_not_banned [of ?c ?w1 sndr] up by simp
  have w2: "w2 = afterGates e msg sndr w"
    using up by (simp add: afterGates_def)
  have st2: "w_state w2 ?c = Some st"
    using upsertUser_fields(2) [of ?c sndr ?w1] up sess by simp
  have body: "messageBody e k msg ?w1 =
      Ok () (safeSend e ?c SessionExpired (stateDelete ?c w2))"
    using sender store up nb st2 old
    by (simp add: messageBody_def sessionExpired_def Let_def)
  have main: "onMessage e k msg w = safeSend e ?c SessionExpired (stateDelete ?c w2)"
    using fl body by (simp add: onMessage_def)
  have f: "w_state w2 = w_state w" "w_outbox w2 = w_outbox w" "w_movies w2 = w_movies w"
    "w_channels w2 = w_channels w" "w_admins w2 = w_admins w"
    using up upsertUser_fields [of ?c sndr ?w1] by simp_all
  show ?thesis using main w2 f by simp
qed

theorem expired_session_rejected_witness:
  "w_state (onMessage env0 rest0 (textMessage 7 ''Parasyte'') staleWorld) = Map.empty
   \<and> w_outbox (onMessage env0 rest0 (textMessage 7 ''Parasyte'') staleWorld)
       = [SendMessage 7 SessionExpired]
   \<and> w_movies (onMessage env0 rest0 (textMessage 7 ''Parasyte'') staleWorld) = []"
proof -
  let ?m = "textMessage 7 ''Parasyte''"
  have g: "\<not> now env0 - lastAction (w_floodMap staleWorld) (msg_chat_id ?m) < floodLimit"
    by (simp add: env0_def staleWorld_def world0_def lastAction_def floodLimit_def textMessage_def)
  have s: "msg_from ?m = Some \<lparr>from_first_name = Some ''Ali'', from_username = None\<rparr>"
    by (simp add: textMessage_def)
  have d: "\<not> storeFails env0 UserUpsert" by (simp add: env0_def)
  have b: "\<not> isBannedActor (msg_chat_id ?m) staleWorld"
    by (simp add: isBannedActor_def staleWorld_def world0_def textMessage_def someUser_def)
  have t: "w_state staleWorld (msg_chat_id ?m) = Some oldSession"
    by (simp add: staleWorld_def world0_def textMessage_def)
  have o: "now env0 - s_timestamp oldSession > stateTTL"
    by (simp add: env0_def oldSession_def stateTTL_def)
  have c: "msg_chat_id ?m = 7" by (simp add: textMessage_def)
  have z: "w_state staleWorld = [7 \<mapsto> oldSession]" "w_outbox staleWorld = []"
    "w_movies staleWorld = []"
    by (simp_all add: staleWorld_def world0_def)
  note r = expired_session_rejected [OF g s d b t o, of rest0]
  have r1: "w_state (onMessage env0 rest0 ?m staleWorld)
      = (w_state staleWorld)((msg_chat_id ?m) := None)"
    using r by blast
  have r2: "w_outbox (onMessage env0 rest0 ?m staleWorld)
      = w_outbox staleWorld @ [SendMessage (msg_chat_id ?m) SessionExpired]"
    using r by blast
  have r3: "w_movies (onMessage env0 rest0 ?m staleWorld) = w_movies staleWorld"
    using r by blast
  show ?thesis
    unfolding r1 r2 r3 using c z by simp
qed

text \<open>
  C2 as stated fails: the message of a banned actor returns at the ban gate, before the
  expiry check; the expired session stays in the store and no notice is sent.
\<close>

theorem expired_session_banned_counterexample:
  "now env0 - s_timestamp oldSession > stateTTL
   \<and> w_state bannedWorld 7 = Some oldSession
   \<and> w_state (onMessage env0 rest0 (textMessage 7 ''Parasyte'') bannedWorld) 7 = Some oldSession
   \<and> w_outbox (onMessage env0 rest0 (textMessage 7 ''Parasyte'') bannedWorld) = []"
  by (simp add: onMessage_def isFlooding_def lastAction_def floodLimit_def messageBody_def
      upsertUser_def sessionExpired_def stateTTL_def bannedWorld_def world0_def env0_def
      textMessage_def someUser_def oldSession_def Let_def)

subsection \<open>Broadcast controller\<close>

text \<open>
  Facts about \<^verbatim>\<open>safeSend\<close>'s bookkeeping and about the relays of a run with no stop request.
\<close>

lemma updateOne_others:
  "others c (updateOne (\<lambda>u. u_telegramId u = c) (\<lambda>u. u\<lparr>u_isActive := False\<rparr>) us) = others c us"
  by (induction us) (simp_all add: others_def)

lemma safeSend_users:
  "w_users (safeSend e c n w) =
     (if bounced403 e c n
      then updateOne (\<lambda>u. u_telegramId u = c) (\<lambda>u. u\<lparr>u_isActive := False\<rparr>) (w_users w)
      else w_users w)"
  by (simp add: safeSend_def bounced403_def Let_def split: sum.splits)

lemma safeSend_others: "others c (w_users (safeSend e c n w)) = others c (w_users w)"
  by (simp add: safeSend_users updateOne_others)

lemma markInactive_update: "u_isActive_update (\<lambda>a. False) = markInactive"
  by (rule ext) (simp add: markInactive_def)

lemma relay_eq:
  "relay e m u (c, b, w) =
     (c + (if deliveredTo e u then 1 else 0), b + (if unreachableFor e u then 1 else 0),
      relayWorld e m u w)"
  by (simp add: relay_def relayWorld_def deliveredTo_def unreachableFor_def copyTo_def
      markInactive_update Let_def split: option.splits)

lemma relayWorld_fields [simp]:
  "w_broadcastController (relayWorld e m u w) = w_broadcastController w"
  "w_console (relayWorld e m u w) = w_console w"
  "w_state (relayWorld e m u w) = w_state w"
  "w_movies (relayWorld e m u w) = w_movies w"
  "w_outbox (relayWorld e m u w) = w_outbox w @ [copyTo m u]"
  by (simp_all add: relayWorld_def)





lemma markInactive_idem [simp]: "markInactive (markInactive x) = markInactive x"
  "u_id (markInactive x) = u_id x"
  by (simp_all add: markInactive_def)




lemma deliverStops_Nil [simp]: "deliverStops [] w = w"
  by (simp add: deliverStops_def)



text \<open>
  Stop requests touch the \<open>shouldStop\<close> flag only, and only while a job is active.
\<close>

lemma stopBroadcast_fields [simp]:
  "isActive (w_broadcastController (stopBroadcast q w)) = isActive (w_broadcastController w)"
  "shouldStop (w_broadcastController (stopBroadcast q w))
     = (shouldStop (w_broadcastController w) \<or> isActive (w_broadcastController w))"
  "copies (w_outbox (stopBroadcast q w)) = copies (w_outbox w)"
  "w_users (stopBroadcast q w) = w_users w"
  by (simp_all add: stopBroadcast_def copies_def)

lemma deliverStops_Cons [simp]: "deliverStops (q # qs) w = deliverStops qs (stopBroadcast q w)"
  by (simp add: deliverStops_def)

lemma deliverStops_fields:
  "isActive (w_broadcastController (deliverStops qs w)) = isActive (w_broadcastController w)
   \<and> copies (w_outbox (deliverStops qs w)) = copies (w_outbox w)
   \<and> w_users (deliverStops qs w) = w_users w
   \<and> (shouldStop (w_broadcastController (deliverStops qs w))
       = (shouldStop (w_broadcastController w) \<or> (qs \<noteq> [] \<and> isActive (w_broadcastController w))))"
  by (induction qs arbitrary: w) auto

text \<open>
  C1, as amended. At most one broadcast job is ever active. The flag \<open>isActive\<close> is set when
  the loop of a job is entered, and neither a relay nor a stop request clears it, so it is set
  for as long as a job runs; and if \<^verbatim>\<open>startBroadcast\<close> is invoked while the flag is set, all
  it does is \<^verbatim>\<open>safeSend\<close> the rejection \<open>AlreadyRunning\<close> to the initiator: the controller
  flags are unchanged, no relay is made (the only request issued is the rejection, so no
  counter of the running job moves), the sessions are unchanged, and the stored state of
  every user other than the initiator is unchanged. The initiator's own record is unchanged
  too unless the rejection bounces with status 403, in which case \<^verbatim>\<open>safeSend\<close> marks it
  inactive.
\<close>

theorem startBroadcast_while_active:
  assumes "isActive (w_broadcastController w)"
  shows "startBroadcast e adminId m w = Ok () (safeSend e adminId AlreadyRunning w)
    \<and> w_broadcastController (worldOf (startBroadcast e adminId m w)) = w_broadcastController w
    \<and> w_outbox (worldOf (startBroadcast e adminId m w))
        = w_outbox w @ [SendMessage adminId AlreadyRunning]
    \<and> w_state (worldOf (startBroadcast e adminId m w)) = w_state w
    \<and> others adminId (w_users (worldOf (startBroadcast e adminId m w)))
        = others adminId (w_users w)
    \<and> (if bounced403 e adminId AlreadyRunning
        then w_users (worldOf (startBroadcast e adminId m w))
             = updateOne (\<lambda>u. u_telegramId u = adminId) (\<lambda>u. u\<lparr>u_isActive := False\<rparr>) (w_users w)
        else w_users (worldOf (startBroadcast e adminId m w)) = w_users w)
    \<and> isActive (w_broadcastController (snd (snd (relay e m u (c, b, w)))))
    \<and> isActive (w_broadcastController (deliverStops qs w))
    \<and> isActive (w_broadcastController
          (deliverStops (stopPresses e None)
             (safeSend e adminId BroadcastStarted
                (w0\<lparr>w_broadcastController := \<lparr>isActive = True, shouldStop = False\<rparr>\<rparr>))))"
proof -
  have r: "startBroadcast e adminId m w = Ok () (safeSend e adminId AlreadyRunning w)"
    using assms by (simp add: startBroadcast_def)
  then have v: "worldOf (startBroadcast e adminId m w) = safeSend e adminId AlreadyRunning w"
    by (simp add: worldOf_def)
  have i1: "isActive (w_broadcastController (snd (snd (relay e m u (c, b, w)))))"
    using assms by (simp add: relay_eq)
  have i2: "isActive (w_broadcastController (deliverStops qs w))"
    using assms deliverStops_fields [of qs w] by simp
  have i3: "isActive (w_broadcastController
          (deliverStops (stopPresses e None)
             (safeSend e adminId BroadcastStarted
                (w0\<lparr>w_broadcastController := \<lparr>isActive = True, shouldStop = False\<rparr>\<rparr>))))"
    using deliverStops_fields [of "stopPresses e None" "safeSend e adminId BroadcastStarted
                (w0\<lparr>w_broadcastController := \<lparr>isActive = True, shouldStop = False\<rparr>\<rparr>)"]
    by simp
  show ?thesis
    unfolding v using r i1 i2 i3 by (simp add: safeSend_users updateOne_others)
qed


lemmas fixtures = world0_def env0_def env5_def env403_def envStop_def world5_def runningWorld_def
  stoppingWorld_def fiveUsers_def recipient_def adMessage_def textMessage_def

theorem startBroadcast_while_active_witness:
  "startBroadcast env0 1 adMessage runningWorld
     = Ok () (safeSend env0 1 AlreadyRunning runningWorld)
   \<and> w_broadcastController (worldOf (startBroadcast env0 1 adMessage runningWorld))
       = \<lparr>isActive = True, shouldStop = False\<rparr>
   \<and> w_outbox (worldOf (startBroadcast env0 1 adMessage runningWorld))
       = [SendMessage 1 AlreadyRunning]
   \<and> w_users (worldOf (startBroadcast env0 1 adMessage runningWorld)) = fiveUsers"
proof -
  have a: "isActive (w_broadcastController runningWorld)"
    by (simp add: runningWorld_def)
  have b: "\<not> bounced403 env0 1 AlreadyRunning"
    by (simp add: bounced403_def env0_def)
  have c: "w_broadcastController runningWorld = \<lparr>isActive = True, shouldStop = False\<rparr>"
    "w_outbox runningWorld = []" "w_users runningWorld = fiveUsers"
    by (simp_all add: runningWorld_def world5_def world0_def)
  note r = startBroadcast_while_active [OF a, of env0 1 adMessage]
  have r1: "startBroadcast env0 1 adMessage runningWorld
     = Ok () (safeSend env0 1 AlreadyRunning runningWorld)"
    using r by blast
  have r2: "w_broadcastController (worldOf (startBroadcast env0 1 adMessage runningWorld))
     = w_broadcastController runningWorld"
    using r by blast
  have r3: "w_outbox (worldOf (startBroadcast env0 1 adMessage runningWorld))
     = w_outbox runningWorld @ [SendMessage 1 AlreadyRunning]"
    using r by blast
  have "if bounced403 env0 1 AlreadyRunning
        then w_users (worldOf (startBroadcast env0 1 adMessage runningWorld))
             = updateOne (\<lambda>u. u_telegramId u = 1) (\<lambda>u. u\<lparr>u_isActive := False\<rparr>)
                 (w_users runningWorld)
        else w_users (worldOf (startBroadcast env0 1 adMessage runningWorld)) = w_users runningWorld"
    using r by blast
  then have r4: "w_users (worldOf (startBroadcast env0 1 adMessage runningWorld))
      = w_users runningWorld"
    using b by simp
  show ?thesis
    unfolding r2 r3 r4 using r1 c by simp
qed

text \<open>
  C1 as stated fails: when the rejection bounces with status 403, \<^verbatim>\<open>safeSend\<close> marks the
  initiator, here the eligible recipient 11, inactive in the store.
\<close>

theorem startBroadcast_bounce_counterexample:
  "isActive (w_broadcastController runningWorld)
   \<and> w_users runningWorld = fiveUsers
   \<and> w_users (worldOf (startBroadcast env403 11 adMessage runningWorld))
       = [(recipient 1)\<lparr>u_isActive := False\<rparr>, recipient 2, recipient 3, recipient 4, recipient 5]
   \<and> u_isActive (recipient 1)"
  by (simp add: startBroadcast_def worldOf_def safeSend_def emit_def Let_def fixtures)



text \<open>
  The five-user example through \<^verbatim>\<open>startBroadcast\<close>: three delivered, two blocked, the second
  and the fourth user inactive, the controller inactive again.
\<close>

theorem broadcast_full_run:
  "w_outbox (worldOf (startBroadcast env5 1 adMessage world5))
     = [SendMessage 1 BroadcastStarted,
        CopyMessage 11 1 1, CopyMessage 12 1 1, CopyMessage 13 1 1, CopyMessage 14 1 1,
        CopyMessage 15 1 1,
        DeleteMessage 1 1, SendMessage 1 (BroadcastFinished 3 2)]
   \<and> map u_isActive (w_users (worldOf (startBroadcast env5 1 adMessage world5)))
       = [True, False, True, False, True]
   \<and> w_broadcastController (worldOf (startBroadcast env5 1 adMessage world5))
       = \<lparr>isActive = False, shouldStop = False\<rparr>"
  by (simp add: startBroadcast_def worldOf_def safeSend_def safeDelete_def sentMessageId_def
      eligible_def relay_def unreachable_def emit_def deliverStops_def Let_def fixtures)



subsection \<open>Subscription gate\<close>

text \<open>
  \<^verbatim>\<open>isUserAdmin\<close> touches the admin cache only.
\<close>

lemma isUserAdmin_fields:
  "isUserAdmin e userId w = Ok b w1 \<Longrightarrow>
   w_outbox w1 = w_outbox w \<and> w_console w1 = w_console w \<and> w_channels w1 = w_channels w
   \<and> w_state w1 = w_state w \<and> w_movies w1 = w_movies w \<and> w_users w1 = w_users w
   \<and> w_admins w1 = w_admins w \<and> w_broadcastController w1 = w_broadcastController w"
  by (auto simp: isUserAdmin_def Let_def split: if_splits option.splits)

lemma isUserAdmin_Err: "isUserAdmin e userId w = Err ex w1 \<Longrightarrow> w1 = w"
  by (auto simp: isUserAdmin_def Let_def split: if_splits option.splits)

lemma checkChannels_spec:
  "fst (checkChannels e userId chs missing w) = missing @ filter (leftOrKicked e userId) chs
   \<and> w_outbox (snd (checkChannels e userId chs missing w))
       = w_outbox w @ map (membershipQuery userId) chs
   \<and> w_console (snd (checkChannels e userId chs missing w))
       = w_console w @ map subscriptionLog (filter (erroring e userId) chs)"
proof (induction chs arbitrary: missing w)
  case Nil
  then show ?case by simp
next
  case (Cons ch chs)
  show ?case
  proof (cases "getChatMember e (ch_channelId ch) userId")
    case (Inl err)
    then show ?thesis
      using Cons [of missing "logError (SubscriptionError (ch_channelId ch))
                                (emit (GetChatMember (ch_channelId ch) userId) w)"]
      by (simp add: leftOrKicked_def erroring_def membershipQuery_def subscriptionLog_def Let_def)
  next
    case (Inr status)
    then show ?thesis
      using Cons [of "if status \<in> set [''left'', ''kicked''] then missing @ [ch] else missing"
                     "emit (GetChatMember (ch_channelId ch) userId) w"]
      by (simp add: leftOrKicked_def erroring_def membershipQuery_def Let_def)
  qed
qed

text \<open>
  C9. For an actor \<^verbatim>\<open>isUserAdmin\<close> answers true for, the check returns the empty list without
  issuing any request. For any other actor (the store answering), every configured channel
  is queried, in order, whatever the earlier queries answered; the missing list is exactly
  the channels whose status is \<^verbatim>\<open>left\<close> or \<^verbatim>\<open>kicked\<close>, so a channel whose query raises a
  transport error is never in it; and each such error is logged, once, with the channel's
  id.
\<close>

theorem checkSubscription_resilient:
  "(erroring e userId ch \<longrightarrow> \<not> leftOrKicked e userId ch)
   \<and> (isUserAdmin e userId w = Ok True w1 \<longrightarrow>
        checkSubscription e userId w = Ok [] w1 \<and> w_outbox w1 = w_outbox w)
   \<and> (isUserAdmin e userId w = Ok False w1 \<and> \<not> storeFails e ChannelFind \<longrightarrow>
        resultOf (checkSubscription e userId w) = Some (filter (leftOrKicked e userId) (w_channels w))
        \<and> w_outbox (worldOf (checkSubscription e userId w))
            = w_outbox w @ map (membershipQuery userId) (w_channels w)
        \<and> w_console (worldOf (checkSubscription e userId w))
            = w_console w @ map subscriptionLog (filter (erroring e userId) (w_channels w)))"
proof (intro conjI impI)
  assume "erroring e userId ch"
  then show "\<not> leftOrKicked e userId ch"
    by (simp add: erroring_def leftOrKicked_def split: sum.splits)
next
  assume a: "isUserAdmin e userId w = Ok True w1"
  then show "checkSubscription e userId w = Ok [] w1"
    by (simp add: checkSubscription_def await_def)
  show "w_outbox w1 = w_outbox w"
    using isUserAdmin_fields [OF a] by simp
next
  assume a: "isUserAdmin e userId w = Ok False w1 \<and> \<not> storeFails e ChannelFind"
  then have f: "w_outbox w1 = w_outbox w" "w_console w1 = w_console w"
    "w_channels w1 = w_channels w"
    using isUserAdmin_fields [of e userId w False w1] by simp_all
  obtain ms w2 where c: "checkChannels e userId (w_channels w1) [] w1 = (ms, w2)"
    by (cases "checkChannels e userId (w_channels w1) [] w1")
  have s: "ms = filter (leftOrKicked e userId) (w_channels w)"
    "w_outbox w2 = w_outbox w @ map (membershipQuery userId) (w_channels w)"
    "w_console w2 = w_console w @ map subscriptionLog (filter (erroring e userId) (w_channels w))"
    using checkChannels_spec [of e userId "w_channels w1" "[]" w1] c f by simp_all
  have r: "checkSubscription e userId w = Ok ms w2"
  proof (cases "w_channels w1 = []")
    case True
    then have "ms = []" "w2 = w1" using c by simp_all
    then show ?thesis using a True by (simp add: checkSubscription_def await_def)
  next
    case False
    then show ?thesis using a c by (simp add: checkSubscription_def await_def)
  qed
  show "resultOf (checkSubscription e userId w)
      = Some (filter (leftOrKicked e userId) (w_channels w))"
    using r s by (simp add: resultOf_def)
  show "w_outbox (worldOf (checkSubscription e userId w))
      = w_outbox w @ map (membershipQuery userId) (w_channels w)"
    using r s by (simp add: worldOf_def)
  show "w_console (worldOf (checkSubscription e userId w))
      = w_console w @ map subscriptionLog (filter (erroring e userId) (w_channels w))"
    using r s by (simp add: worldOf_def)
qed

theorem checkSubscription_resilient_witness:
  "resultOf (checkSubscription envChannels 7 channelWorld)
     = Some [someChannel ''-1001'', someChannel ''-1003'']
   \<and> w_outbox (worldOf (checkSubscription envChannels 7 channelWorld))
       = [GetChatMember ''-1001'' 7, GetChatMember ''-1002'' 7, GetChatMember ''-1003'' 7,
          GetChatMember ''-1004'' 7]
   \<and> w_console (worldOf (checkSubscription envChannels 7 channelWorld))
       = [SubscriptionError ''-1002'']
   \<and> checkSubscription envChannels 1 channelWorld = Ok [] channelWorld
   \<and> erroring envChannels 7 (someChannel ''-1002'')
   \<and> \<not> leftOrKicked envChannels 7 (someChannel ''-1002'')"
proof -
  let ?w1 = "channelWorld\<lparr>w_adminCache := [7 \<mapsto> \<lparr>c_isAdmin = False,
      c_expire = 1700000000000 + adminCacheTTL\<rparr>]\<rparr>"
  note t = checkSubscription_resilient
  have na: "isUserAdmin envChannels 7 channelWorld = Ok False ?w1 \<and> \<not> storeFails envChannels ChannelFind"
    by (simp add: isUserAdmin_def cachedAdmin_def envChannels_def env0_def channelWorld_def
        world0_def Let_def)
  have ad: "isUserAdmin envChannels 1 channelWorld = Ok True channelWorld"
    by (simp add: isUserAdmin_def envChannels_def env0_def)
  have er: "erroring envChannels 7 (someChannel ''-1002'')"
    by (simp add: erroring_def envChannels_def someChannel_def)
  have v: "filter (leftOrKicked envChannels 7) (w_channels channelWorld)
      = [someChannel ''-1001'', someChannel ''-1003'']"
    "w_outbox channelWorld @ map (membershipQuery 7) (w_channels channelWorld)
      = [GetChatMember ''-1001'' 7, GetChatMember ''-1002'' 7, GetChatMember ''-1003'' 7,
          GetChatMember ''-1004'' 7]"
    "w_console channelWorld @ map subscriptionLog (filter (erroring envChannels 7) (w_channels channelWorld))
      = [SubscriptionError ''-1002'']"
    by (simp_all add: leftOrKicked_def erroring_def membershipQuery_def subscriptionLog_def
        envChannels_def channelWorld_def world0_def someChannel_def)
  have p1: "resultOf (checkSubscription envChannels 7 channelWorld)
        = Some (filter (leftOrKicked envChannels 7) (w_channels channelWorld))
        \<and> w_outbox (worldOf (checkSubscription envChannels 7 channelWorld))
            = w_outbox channelWorld @ map (membershipQuery 7) (w_channels channelWorld)
        \<and> w_console (worldOf (checkSubscription envChannels 7 channelWorld))
            = w_console channelWorld @ map subscriptionLog
                (filter (erroring envChannels 7) (w_channels channelWorld))"
    using t [of envChannels 7 "someChannel ''-1002''" channelWorld ?w1] na by blast
  have p2: "checkSubscription envChannels 1 channelWorld = Ok [] channelWorld"
    using t [of envChannels 1 "someChannel ''-1002''" channelWorld channelWorld] ad by blast
  have p3: "\<not> leftOrKicked envChannels 7 (someChannel ''-1002'')"
    using t [of envChannels 7 "someChannel ''-1002''" channelWorld ?w1] er by blast
  show ?thesis using p1 p2 p3 er v by simp
qed

subsection \<open>Rating\<close>

text \<open>
  Facts about \<open>updateOne\<close> and the rating update.
\<close>

lemma updateOne_length [simp]: "length (updateOne p f xs) = length xs"
  by (induction xs) simp_all


lemma updateOne_none: "find p xs = None \<Longrightarrow> updateOne p f xs = xs"
  by (induction xs) (simp_all split: if_splits)









subsection \<open>Admin wizard\<close>

text \<open>
  The permission gate of \<^verbatim>\<open>handleAdminInput\<close> reads the store and changes nothing; once it
  has let the input through, the handler is the \<^verbatim>\<open>try\<close> block with its \<^verbatim>\<open>catch\<close>.
\<close>

lemma permissionGate_world: "permissionGate e chatId st w = Ok b w1 \<Longrightarrow> w1 = w"
  by (auto simp: permissionGate_def hasPermission_def split: option.splits if_splits)


lemma handleAdminInput_granted:
  assumes "w_state w chatId = Some st" and "permissionGate e chatId st w = Ok True w"
  shows "handleAdminInput e chatId msg w =
     (case adminInputBody e chatId msg st w of
        Ok u w2 \<Rightarrow> Ok u w2
      | Err ex w2 \<Rightarrow>
          Ok () (safeSend e chatId SystemError
                  (stateDelete chatId (logError AdminInputError w2))))"
  using assms by (simp add: handleAdminInput_def await_def)

lemma find_None_filter: "find p xs = None \<Longrightarrow> filter p xs = []"
  by (induction xs) (simp_all split: if_splits)

lemma autoPost_movies:
  "w_movies (worldOf (autoPost e doc w)) = w_movies w
   \<and> w_state (worldOf (autoPost e doc w)) = w_state w"
  by (simp add: autoPost_def worldOf_def Let_def split: option.splits)

lemma submitCode_created:
  assumes "parseInt txt = Some code" and "\<not> storeFails e MovieFindOne"
    and "\<not> storeFails e MovieCreate" and "findByCode code (w_movies w) = None"
    and "s_contentType st = Some series \<longrightarrow> s_data st \<noteq> None"
  shows "w_movies (worldOf (submitCode e chatId txt st w))
           = w_movies w @ [finalData chatId st code (freshId (w_movies w))]
         \<and> (\<forall>u w1. submitCode e chatId txt st w = Ok u w1 \<longrightarrow> w_state w1 chatId = None)"
proof -
  let ?doc = "finalData chatId st code (freshId (w_movies w))"
  let ?w1 = "w\<lparr>w_movies := w_movies w @ [?doc]\<rparr>"
  have s: "submitCode e chatId txt st w =
      await (autoPost e ?doc ?w1) (\<lambda>u w2.
        Ok () (emit (Render chatId AdminPanel)
                (safeSend e chatId (ContentAdded (kindOf st) code) (stateDelete chatId w2))))"
    using assms by (auto simp: submitCode_def Let_def)
  have m: "w_movies (worldOf (autoPost e ?doc ?w1)) = w_movies w @ [?doc]"
    using autoPost_movies [of e ?doc ?w1] by simp
  show ?thesis
  proof (cases "autoPost e ?doc ?w1")
    case (Ok u w2)
    then show ?thesis using s m by (simp add: await_def worldOf_def)
  next
    case (Err ex w2)
    then show ?thesis using s m by (simp add: await_def worldOf_def)
  qed
qed

text \<open>
  The Code step of the AddContent wizard, for an actor holding the required capability. It
  reads the input with \<^verbatim>\<open>parseInt\<close>: an input from which no number is read is answered with
  the digits-only notice and nothing else happens; a code already borne by a stored record
  is answered with the code-taken notice, and neither the sessions (so the step) nor the
  records change; otherwise (the store answering) exactly one record is appended, it bears
  that code, it is afterwards the only record with that code, the session is deleted, and
  the code is from then on found in the store, so that by the second conjunct a later
  submission of the same code is rejected and creates no record.
\<close>

lemma code_step:
  assumes sess: "w_state w chatId = Some st"
    and act: "s_action st = ADD_CONTENT" and stp: "s_step st = Some CODE"
    and perm: "permissionGate e chatId st w = Ok True w"
  shows
    "(parseInt (messageText msg) = None \<longrightarrow>
        handleAdminInput e chatId msg w = Ok () (safeSend e chatId DigitsOnly w))
     \<and> (parseInt (messageText msg) = Some code \<and> \<not> storeFails e MovieFindOne
          \<and> findByCode code (w_movies w) \<noteq> None \<longrightarrow>
        handleAdminInput e chatId msg w = Ok () (safeSend e chatId CodeTaken w)
        \<and> w_state (worldOf (handleAdminInput e chatId msg w)) = w_state w
        \<and> w_movies (worldOf (handleAdminInput e chatId msg w)) = w_movies w)
     \<and> (parseInt (messageText msg) = Some code \<and> \<not> storeFails e MovieFindOne
          \<and> \<not> storeFails e MovieCreate \<and> findByCode code (w_movies w) = None
          \<and> (s_contentType st = Some series \<longrightarrow> s_data st \<noteq> None) \<longrightarrow>
        w_movies (worldOf (handleAdminInput e chatId msg w))
          = w_movies w @ [finalData chatId st code (freshId (w_movies w))]
        \<and> length (withCode code (w_movies (worldOf (handleAdminInput e chatId msg w)))) = 1
        \<and> findByCode code (w_movies (worldOf (handleAdminInput e chatId msg w))) \<noteq> None
        \<and> w_state (worldOf (handleAdminInput e chatId msg w)) chatId = None)"
proof -
  have body: "adminInputBody e chatId msg st w = submitCode e chatId (messageText msg) st w"
    using act stp by (simp add: adminInputBody_def addContent_def)
  note h = handleAdminInput_granted [OF sess perm, of msg, unfolded body]
  show ?thesis
  proof (intro conjI impI)
    assume "parseInt (messageText msg) = None"
    then show "handleAdminInput e chatId msg w = Ok () (safeSend e chatId DigitsOnly w)"
      using h by (simp add: submitCode_def)
  next
    assume a: "parseInt (messageText msg) = Some code \<and> \<not> storeFails e MovieFindOne
          \<and> findByCode code (w_movies w) \<noteq> None"
    then show r: "handleAdminInput e chatId msg w = Ok () (safeSend e chatId CodeTaken w)"
      using h by (simp add: submitCode_def)
    show "w_state (worldOf (handleAdminInput e chatId msg w)) = w_state w"
      using r by (simp add: worldOf_def)
    show "w_movies (worldOf (handleAdminInput e chatId msg w)) = w_movies w"
      using r by (simp add: worldOf_def)
  next
    assume a: "parseInt (messageText msg) = Some code \<and> \<not> storeFails e MovieFindOne
          \<and> \<not> storeFails e MovieCreate \<and> findByCode code (w_movies w) = None
          \<and> (s_contentType st = Some series \<longrightarrow> s_data st \<noteq> None)"
    let ?doc = "finalData chatId st code (freshId (w_movies w))"
    let ?r = "submitCode e chatId (messageText msg) st w"
    have c: "w_movies (worldOf ?r) = w_movies w @ [?doc]"
      "\<forall>u w1. ?r = Ok u w1 \<longrightarrow> w_state w1 chatId = None"
      using submitCode_created [of "messageText msg" code e w st chatId] a by simp_all
    have mv: "w_movies (worldOf (handleAdminInput e chatId msg w)) = w_movies w @ [?doc]"
      using h c(1) by (cases ?r) (simp_all add: worldOf_def)
    have cd: "m_code ?doc = code" by (simp add: finalData_def Let_def)
    have none: "withCode code (w_movies w) = []"
      using a find_None_filter [of "\<lambda>m. m_code m = code" "w_movies w"]
      by (simp add: withCode_def findByCode_def)
    show "w_movies (worldOf (handleAdminInput e chatId msg w)) = w_movies w @ [?doc]"
      by (rule mv)
    show "length (withCode code (w_movies (worldOf (handleAdminInput e chatId msg w)))) = 1"
      using mv none cd by (simp add: withCode_def)
    show "findByCode code (w_movies (worldOf (handleAdminInput e chatId msg w))) \<noteq> None"
      using mv cd by (auto simp: findByCode_def find_None_iff)
    show "w_state (worldOf (handleAdminInput e chatId msg w)) chatId = None"
      using h c(2) by (cases ?r) (simp_all add: worldOf_def)
  qed
qed

lemma superAdmin_gate: "permissionGate env0 1 st w = Ok True w"
  "permissionGate envDown 1 st w = Ok True w"
  by (simp_all add: permissionGate_def hasPermission_def env0_def envDown_def split: option.splits)

lemma parsed_texts:
  "parseInt (messageText (textMessage 1 ''abc'')) = None"
  "parseInt (messageText (textMessage 1 ''4242'')) = Some 4242"
  "parseInt (messageText (textMessage 1 ''4242abc'')) = Some 4242"
  by code_simp+

lemma code_step_instance:
  "handleAdminInput env0 1 (textMessage 1 ''abc'') (wizardWorld 1 CODE (Some parasyteDraft))
     = Ok () (safeSend env0 1 DigitsOnly (wizardWorld 1 CODE (Some parasyteDraft)))
   \<and> handleAdminInput env0 1 (textMessage 1 ''4242'')
        ((wizardWorld 1 CODE (Some parasyteDraft))\<lparr>w_movies := [parasyte]\<rparr>)
     = Ok () (safeSend env0 1 CodeTaken
               ((wizardWorld 1 CODE (Some parasyteDraft))\<lparr>w_movies := [parasyte]\<rparr>))
   \<and> w_movies (worldOf (handleAdminInput env0 1 (textMessage 1 ''4242'')
        (wizardWorld 1 CODE (Some parasyteDraft)))) = [parasyte]
   \<and> w_state (worldOf (handleAdminInput env0 1 (textMessage 1 ''4242'')
        (wizardWorld 1 CODE (Some parasyteDraft)))) 1 = None"
proof -
  let ?st = "wizardSession CODE (Some parasyteDraft)"
  let ?w = "wizardWorld 1 CODE (Some parasyteDraft)"
  let ?w2 = "?w\<lparr>w_movies := [parasyte]\<rparr>"
  have s: "w_state ?w 1 = Some ?st" "w_state ?w2 1 = Some ?st"
    "s_action ?st = ADD_CONTENT" "s_step ?st = Some CODE"
    by (simp_all add: wizardWorld_def wizardSession_def world0_def)
  note t1 = code_step [OF s(1) s(3) s(4) superAdmin_gate(1)]
  note t2 = code_step [OF s(2) s(3) s(4) superAdmin_gate(1)]
  have p1: "handleAdminInput env0 1 (textMessage 1 ''abc'') ?w = Ok () (safeSend env0 1 DigitsOnly ?w)"
    using t1 [of "textMessage 1 ''abc''" 0] parsed_texts(1) by blast
  have h2: "parseInt (messageText (textMessage 1 ''4242'')) = Some 4242
      \<and> \<not> storeFails env0 MovieFindOne \<and> findByCode 4242 (w_movies ?w2) \<noteq> None"
    by (simp add: parsed_texts env0_def findByCode_def parasyte_def)
  have p2: "handleAdminInput env0 1 (textMessage 1 ''4242'') ?w2 = Ok () (safeSend env0 1 CodeTaken ?w2)"
    using t2 [of "textMessage 1 ''4242''" 4242] h2 by blast
  have h3: "parseInt (messageText (textMessage 1 ''4242'')) = Some 4242
      \<and> \<not> storeFails env0 MovieFindOne \<and> \<not> storeFails env0 MovieCreate
      \<and> findByCode 4242 (w_movies ?w) = None
      \<and> (s_contentType ?st = Some series \<longrightarrow> s_data ?st \<noteq> None)"
    by (simp add: parsed_texts env0_def findByCode_def wizardWorld_def wizardSession_def world0_def)
  have d: "w_movies ?w @ [finalData 1 ?st 4242 (freshId (w_movies ?w))] = [parasyte]"
    by (simp add: finalData_def kindOf_def freshId_def wizardWorld_def wizardSession_def
        world0_def parasyteDraft_def parasyte_def Let_def)
  have p3: "w_movies (worldOf (handleAdminInput env0 1 (textMessage 1 ''4242'') ?w))
      = w_movies ?w @ [finalData 1 ?st 4242 (freshId (w_movies ?w))]
      \<and> w_state (worldOf (handleAdminInput env0 1 (textMessage 1 ''4242'') ?w)) 1 = None"
    using t1 [of "textMessage 1 ''4242''" 4242] h3 by blast
  show ?thesis using p1 p2 p3 d by simp
qed

text \<open>
  C6. The Code step rejects a taken code and creates one record per accepted code, as the
  lemma \<open>code_step\<close> says, but it does not accept numeric input only, although it means to:
  its rejection notice reads "digits only", and the message handler tests a content code
  with \<^verbatim>\<open>/^\d+$/\<close>. \<^verbatim>\<open>parseInt\<close> reads the leading digits and ignores what follows, so the
  input \<^verbatim>\<open>4242abc\<close> is accepted: it creates the record with code 4242 and is answered with
  the notice that the content was added.
\<close>

theorem code_step_accepts_prefix:
  "messageText (textMessage 1 ''4242abc'') = ''4242abc''
   \<and> w_movies (wizardWorld 1 CODE (Some parasyteDraft)) = []
   \<and> w_movies (worldOf (handleAdminInput env0 1 (textMessage 1 ''4242abc'')
        (wizardWorld 1 CODE (Some parasyteDraft)))) = [parasyte]
   \<and> w_outbox (worldOf (handleAdminInput env0 1 (textMessage 1 ''4242abc'')
        (wizardWorld 1 CODE (Some parasyteDraft))))
       = [SendMessage 1 (ContentAdded movie 4242), Render 1 AdminPanel]"
  by code_simp

text \<open>
  The example of the spec, input by input, through the two handlers.
\<close>

lemma texts_read:
  "sanitize (Some (messageText (textMessage 1 ''Parasyte''))) = ''Parasyte''"
  "sanitize (Some (messageText (textMessage 1 ''Japan''))) = ''Japan''"
  "sanitize (Some (messageText (textMessage 1 ''Japanese''))) = ''Japanese''"
  "detectQuality 1280 = ''720p HD''" "formatDuration 5400 = ''1:30:00''"
  by code_simp+

lemma textMessage_fields [simp]:
  "msg_chat_id (textMessage c t) = c"
  "msg_from (textMessage c t) = Some \<lparr>from_first_name = Some ''Ali'', from_username = None\<rparr>"
  "msg_photo (textMessage c t) = None" "msg_video (textMessage c t) = None"
  by (simp_all add: textMessage_def)

lemmas run_defs = onMessage_def onCallbackQuery_def callbackBody_def messageBody_def
  isFlooding_def lastAction_def floodLimit_def upsertUser_def sessionExpired_def stateTTL_def
  isUserAdmin_def handleAdminInput_def permissionGate_def hasPermission_def await_def
  adminInputBody_def addContent_def setDraft_def startAddContent_def adultFlag_def
  safeSend_def safeDelete_def emit_def stateSet_def stateDelete_def
  runWorld_def sessionAt_def wizardSession_def draftAfter_def parasyteDraft_def emptyDraft_def
  world0_def env0_def envAt_def clockAt_def ali_def pressed_def videoMessage_def photoMessage_def
  texts_read Let_def

lemma run_start:
  "onCallbackQuery (envAt t) (pressed start_add_movie) (runWorld t0 st ms obx)
     = runWorld t0 (Some (sessionAt t VIDEO None)) ms
         (obx @ [DeleteMessage 1 10, SendMessage 1 (AskVideo movie)])"
  by (simp add: run_defs split: option.splits)

lemma run_video:
  "t0 \<le> t \<Longrightarrow>
   onMessage (envAt (t + 1)) rest0 videoMessage (runWorld t0 (Some (sessionAt t VIDEO None)) ms obx)
     = runWorld (t + 1) (Some (sessionAt t POSTER (Some (draftAfter VIDEO)))) ms
         (obx @ [SendMessage 1 AskPoster])"
  by (simp add: run_defs)

lemma run_poster:
  "onMessage (envAt (t + 2)) rest0 photoMessage
       (runWorld (t + 1) (Some (sessionAt t POSTER (Some (draftAfter VIDEO)))) ms obx)
     = runWorld (t + 2) (Some (sessionAt t TITLE (Some (draftAfter POSTER)))) ms
         (obx @ [SendMessage 1 AskTitle])"
  by (simp add: run_defs)

lemma run_title:
  "onMessage (envAt (t + 3)) rest0 (textMessage 1 ''Parasyte'')
       (runWorld (t + 2) (Some (sessionAt t TITLE (Some (draftAfter POSTER)))) ms obx)
     = runWorld (t + 3) (Some (sessionAt t COUNTRY (Some (draftAfter TITLE)))) ms
         (obx @ [SendMessage 1 AskCountry])"
  by (simp add: run_defs)

lemma run_country:
  "onMessage (envAt (t + 4)) rest0 (textMessage 1 ''Japan'')
       (runWorld (t + 3) (Some (sessionAt t COUNTRY (Some (draftAfter TITLE)))) ms obx)
     = runWorld (t + 4) (Some (sessionAt t LANG (Some (draftAfter COUNTRY)))) ms
         (obx @ [SendMessage 1 AskLanguage])"
  by (simp add: run_defs)

lemma run_lang:
  "onMessage (envAt (t + 5)) rest0 (textMessage 1 ''Japanese'')
       (runWorld (t + 4) (Some (sessionAt t LANG (Some (draftAfter COUNTRY)))) ms obx)
     = runWorld (t + 5) (Some (sessionAt t ADULT (Some (draftAfter LANG)))) ms
         (obx @ [SendMessage 1 AskAdult])"
  by (simp add: run_defs)

lemma run_adult:
  "onCallbackQuery (envAt (t + 6)) (pressed adult_no)
       (runWorld (t + 5) (Some (sessionAt t ADULT (Some (draftAfter LANG)))) ms obx)
     = runWorld (t + 5) (Some (sessionAt t CODE (Some parasyteDraft))) ms
         (obx @ [DeleteMessage 1 10, SendMessage 1 AskCode])"
  by (simp add: run_defs)

lemma run_code_new:
  "onMessage (envAt (t + 7)) rest0 (textMessage 1 ''4242'')
       (runWorld (t + 5) (Some (sessionAt t CODE (Some parasyteDraft))) [] obx)
     = runWorld (t + 7) None [parasyte]
         (obx @ [SendMessage 1 (ContentAdded movie 4242), Render 1 AdminPanel])"
  by (simp add: run_defs submitCode_def parsed_texts findByCode_def autoPost_def finalData_def
      kindOf_def freshId_def parasyte_def)

lemma run_code_taken:
  "onMessage (envAt (t + 7)) rest0 (textMessage 1 ''4242'')
       (runWorld (t + 5) (Some (sessionAt t CODE (Some parasyteDraft))) [parasyte] obx)
     = runWorld (t + 7) (Some (sessionAt t CODE (Some parasyteDraft))) [parasyte]
         (obx @ [SendMessage 1 CodeTaken])"
  by (simp add: run_defs submitCode_def parsed_texts findByCode_def parasyte_def)

lemma parasyteRun_first:
  "t0 \<le> t \<Longrightarrow>
   parasyteRun t (runWorld t0 st [] obx)
     = runWorld (t + 7) None [parasyte]
         (obx @ [DeleteMessage 1 10, SendMessage 1 (AskVideo movie), SendMessage 1 AskPoster,
                 SendMessage 1 AskTitle, SendMessage 1 AskCountry, SendMessage 1 AskLanguage,
                 SendMessage 1 AskAdult, DeleteMessage 1 10, SendMessage 1 AskCode,
                 SendMessage 1 (ContentAdded movie 4242), Render 1 AdminPanel])"
  by (simp add: parasyteRun_def run_start run_video run_poster run_title run_country run_lang
      run_adult run_code_new)

lemma parasyteRun_second:
  "t0 \<le> t \<Longrightarrow>
   parasyteRun t (runWorld t0 st [parasyte] obx)
     = runWorld (t + 7) (Some (sessionAt t CODE (Some parasyteDraft))) [parasyte]
         (obx @ [DeleteMessage 1 10, SendMessage 1 (AskVideo movie), SendMessage 1 AskPoster,
                 SendMessage 1 AskTitle, SendMessage 1 AskCountry, SendMessage 1 AskLanguage,
                 SendMessage 1 AskAdult, DeleteMessage 1 10, SendMessage 1 AskCode,
                 SendMessage 1 CodeTaken])"
  by (simp add: parasyteRun_def run_start run_video run_poster run_title run_country run_lang
      run_adult run_code_taken)

text \<open>
  The run of the example creates exactly the record of code 4242 and deletes the session; a
  second run with the same code ends with the code-taken notice, the session still at the
  Code step, and no second record.
\<close>

theorem addContent_parasyte:
  "w_movies (parasyteRun 0 (runWorld (- 1) None [] [])) = [parasyte]
   \<and> w_state (parasyteRun 0 (runWorld (- 1) None [] [])) 1 = None
   \<and> w_movies (parasyteRun 10 (parasyteRun 0 (runWorld (- 1) None [] []))) = [parasyte]
   \<and> last (w_outbox (parasyteRun 10 (parasyteRun 0 (runWorld (- 1) None [] []))))
       = SendMessage 1 CodeTaken
   \<and> stepOf (parasyteRun 10 (parasyteRun 0 (runWorld (- 1) None [] []))) 1 = Some CODE"
proof -
  let ?o1 = "[DeleteMessage 1 10, SendMessage 1 (AskVideo movie), SendMessage 1 AskPoster,
                 SendMessage 1 AskTitle, SendMessage 1 AskCountry, SendMessage 1 AskLanguage,
                 SendMessage 1 AskAdult, DeleteMessage 1 10, SendMessage 1 AskCode,
                 SendMessage 1 (ContentAdded movie 4242), Render 1 AdminPanel]"
  have r1: "parasyteRun 0 (runWorld (- 1) None [] []) = runWorld 7 None [parasyte] ?o1"
    using parasyteRun_first [of "- 1" 0 None "[]"] by simp
  have r2: "parasyteRun 10 (runWorld 7 None [parasyte] ?o1)
      = runWorld 17 (Some (sessionAt 10 CODE (Some parasyteDraft))) [parasyte]
          (?o1 @ [DeleteMessage 1 10, SendMessage 1 (AskVideo movie), SendMessage 1 AskPoster,
                 SendMessage 1 AskTitle, SendMessage 1 AskCountry, SendMessage 1 AskLanguage,
                 SendMessage 1 AskAdult, DeleteMessage 1 10, SendMessage 1 AskCode,
                 SendMessage 1 CodeTaken])"
    using parasyteRun_second [of 7 10 None ?o1] by simp
  show ?thesis
    unfolding r1 r2
    by (simp add: runWorld_def stepOf_def sessionAt_def wizardSession_def)
qed

text \<open>
  C7, as amended. For an actor holding the required capability: at the steps that require
  a video or a photo (AddContent's Video and Poster, AddEpisode's Video, and the field editor
  for the poster and for a movie's file, the record being in the store) a message without
  that medium is answered with a re-prompt and nothing else: the re-prompt leaves the
  sessions, hence the step and the draft, and the stored records as they were. The text steps
  Title, Country and Language take a message of any kind: they store its text or caption,
  sanitized and possibly empty, and advance.
\<close>

theorem media_steps_reprompt:
  assumes sess: "w_state w chatId = Some st"
    and perm: "permissionGate e chatId st w = Ok True w"
  shows
    "(s_action st = ADD_CONTENT \<and> s_step st = Some VIDEO \<and> msg_video msg = None \<longrightarrow>
        handleAdminInput e chatId msg w = Ok () (safeSend e chatId VideoRequired w))
     \<and> (s_action st = ADD_CONTENT \<and> s_step st = Some POSTER \<and> msg_photo msg = None \<longrightarrow>
        handleAdminInput e chatId msg w = Ok () (safeSend e chatId PhotoRequired w))
     \<and> (s_action st = ADD_EPISODE \<and> s_step st = Some VIDEO \<and> msg_video msg = None
          \<and> \<not> storeFails e MovieFindById \<and> storedKind st w \<noteq> None \<longrightarrow>
        handleAdminInput e chatId msg w = Ok () (safeSend e chatId EpisodeVideoRequired w))
     \<and> (s_action st = EDIT_FIELD \<and> s_field st = Some ''posterId'' \<and> msg_photo msg = None
          \<and> \<not> storeFails e MovieFindById \<and> storedKind st w \<noteq> None \<longrightarrow>
        handleAdminInput e chatId msg w = Ok () (safeSend e chatId PhotoPlease w))
     \<and> (s_action st = EDIT_FIELD \<and> s_field st = Some ''fileId'' \<and> msg_video msg = None
          \<and> \<not> storeFails e MovieFindById \<and> storedKind st w = Some movie \<longrightarrow>
        handleAdminInput e chatId msg w = Ok () (safeSend e chatId VideoFilePlease w))
     \<and> w_state (safeSend e chatId n w) = w_state w
     \<and> w_movies (safeSend e chatId n w) = w_movies w
     \<and> w_channels (safeSend e chatId n w) = w_channels w
     \<and> w_admins (safeSend e chatId n w) = w_admins w
     \<and> (s_action st = ADD_CONTENT \<and> s_step st = Some TITLE \<and> s_data st = Some d \<longrightarrow>
        handleAdminInput e chatId msg w =
          Ok () (safeSend e chatId AskCountry
                  (stateSet chatId
                     (st\<lparr>s_data := Some (d\<lparr>d_title := Some (sanitize (Some (messageText msg)))\<rparr>),
                         s_step := Some COUNTRY\<rparr>) w)))
     \<and> (s_action st = ADD_CONTENT \<and> s_step st = Some COUNTRY \<and> s_data st = Some d \<longrightarrow>
        handleAdminInput e chatId msg w =
          Ok () (safeSend e chatId AskLanguage
                  (stateSet chatId
                     (st\<lparr>s_data := Some (d\<lparr>d_country := Some (sanitize (Some (messageText msg)))\<rparr>),
                         s_step := Some LANG\<rparr>) w)))
     \<and> (s_action st = ADD_CONTENT \<and> s_step st = Some LANG \<and> s_data st = Some d \<longrightarrow>
        handleAdminInput e chatId msg w =
          Ok () (safeSend e chatId AskAdult
                  (stateSet chatId
                     (st\<lparr>s_data := Some (d\<lparr>d_language := Some (sanitize (Some (messageText msg)))\<rparr>),
                         s_step := Some ADULT\<rparr>) w)))"
proof -
  note h = handleAdminInput_granted [OF sess perm, of msg]
  show ?thesis
  proof (intro conjI impI)
    assume "s_action st = ADD_CONTENT \<and> s_step st = Some VIDEO \<and> msg_video msg = None"
    then show "handleAdminInput e chatId msg w = Ok () (safeSend e chatId VideoRequired w)"
      using h by (simp add: adminInputBody_def addContent_def)
  next
    assume "s_action st = ADD_CONTENT \<and> s_step st = Some POSTER \<and> msg_photo msg = None"
    then show "handleAdminInput e chatId msg w = Ok () (safeSend e chatId PhotoRequired w)"
      using h by (simp add: adminInputBody_def addContent_def)
  next
    assume "s_action st = ADD_EPISODE \<and> s_step st = Some VIDEO \<and> msg_video msg = None
          \<and> \<not> storeFails e MovieFindById \<and> storedKind st w \<noteq> None"
    then show "handleAdminInput e chatId msg w = Ok () (safeSend e chatId EpisodeVideoRequired w)"
      using h by (auto simp: adminInputBody_def addEpisode_def storedKind_def)
  next
    assume "s_action st = EDIT_FIELD \<and> s_field st = Some ''posterId'' \<and> msg_photo msg = None
          \<and> \<not> storeFails e MovieFindById \<and> storedKind st w \<noteq> None"
    then show "handleAdminInput e chatId msg w = Ok () (safeSend e chatId PhotoPlease w)"
      using h by (auto simp: adminInputBody_def editField_def storedKind_def)
  next
    assume "s_action st = EDIT_FIELD \<and> s_field st = Some ''fileId'' \<and> msg_video msg = None
          \<and> \<not> storeFails e MovieFindById \<and> storedKind st w = Some movie"
    then show "handleAdminInput e chatId msg w = Ok () (safeSend e chatId VideoFilePlease w)"
      using h by (auto simp: adminInputBody_def editField_def storedKind_def)
  next
    assume "s_action st = ADD_CONTENT \<and> s_step st = Some TITLE \<and> s_data st = Some d"
    then show "handleAdminInput e chatId msg w =
          Ok () (safeSend e chatId AskCountry
                  (stateSet chatId
                     (st\<lparr>s_data := Some (d\<lparr>d_title := Some (sanitize (Some (messageText msg)))\<rparr>),
                         s_step := Some COUNTRY\<rparr>) w))"
      using h by (simp add: adminInputBody_def addContent_def setDraft_def)
  next
    assume "s_action st = ADD_CONTENT \<and> s_step st = Some COUNTRY \<and> s_data st = Some d"
    then show "handleAdminInput e chatId msg w =
          Ok () (safeSend e chatId AskLanguage
                  (stateSet chatId
                     (st\<lparr>s_data := Some (d\<lparr>d_country := Some (sanitize (Some (messageText msg)))\<rparr>),
                         s_step := Some LANG\<rparr>) w))"
      using h by (simp add: adminInputBody_def addContent_def setDraft_def)
  next
    assume "s_action st = ADD_CONTENT \<and> s_step st = Some LANG \<and> s_data st = Some d"
    then show "handleAdminInput e chatId msg w =
          Ok () (safeSend e chatId AskAdult
                  (stateSet chatId
                     (st\<lparr>s_data := Some (d\<lparr>d_language := Some (sanitize (Some (messageText msg)))\<rparr>),
                         s_step := Some ADULT\<rparr>) w))"
      using h by (simp add: adminInputBody_def addContent_def setDraft_def)
  qed simp_all
qed


lemma hello_text: "parseInt (messageText (textMessage 1 ''hello'')) = None"
  by code_simp

theorem media_steps_reprompt_witness:
  "handleAdminInput env0 1 (textMessage 1 ''hello'') (wizardWorld 1 VIDEO None)
     = Ok () (safeSend env0 1 VideoRequired (wizardWorld 1 VIDEO None))
   \<and> handleAdminInput env0 1 (textMessage 1 ''hello'') (wizardWorld 1 POSTER (Some (draftAfter VIDEO)))
     = Ok () (safeSend env0 1 PhotoRequired (wizardWorld 1 POSTER (Some (draftAfter VIDEO))))
   \<and> handleAdminInput env0 1 (textMessage 1 ''hello'') (sessionWorld episodeSession)
     = Ok () (safeSend env0 1 EpisodeVideoRequired (sessionWorld episodeSession))
   \<and> handleAdminInput env0 1 (textMessage 1 ''hello'') (sessionWorld (editSession ''posterId''))
     = Ok () (safeSend env0 1 PhotoPlease (sessionWorld (editSession ''posterId'')))
   \<and> handleAdminInput env0 1 (textMessage 1 ''hello'') (sessionWorld (editSession ''fileId''))
     = Ok () (safeSend env0 1 VideoFilePlease (sessionWorld (editSession ''fileId'')))
   \<and> w_state (safeSend env0 1 VideoRequired (wizardWorld 1 VIDEO None))
       = w_state (wizardWorld 1 VIDEO None)
   \<and> handleAdminInput env0 1 (textMessage 1 ''Parasyte'') (wizardWorld 1 TITLE (Some (draftAfter POSTER)))
     = Ok () (safeSend env0 1 AskCountry
         (stateSet 1 (wizardSession COUNTRY (Some (draftAfter TITLE)))
            (wizardWorld 1 TITLE (Some (draftAfter POSTER)))))"
proof -
  have v: "w_state (wizardWorld 1 VIDEO None) 1 = Some (wizardSession VIDEO None)"
    "s_action (wizardSession VIDEO None) = ADD_CONTENT \<and> s_step (wizardSession VIDEO None) = Some VIDEO
      \<and> msg_video (textMessage 1 ''hello'') = None"
    by (simp_all add: wizardWorld_def wizardSession_def world0_def)
  note tv = media_steps_reprompt [OF v(1) superAdmin_gate(1), of "textMessage 1 ''hello''"]
  have p1: "handleAdminInput env0 1 (textMessage 1 ''hello'') (wizardWorld 1 VIDEO None)
     = Ok () (safeSend env0 1 VideoRequired (wizardWorld 1 VIDEO None))"
    using tv v(2) by blast
  have p6: "w_state (safeSend env0 1 VideoRequired (wizardWorld 1 VIDEO None))
       = w_state (wizardWorld 1 VIDEO None)"
    using tv by blast
  let ?wp = "wizardWorld 1 POSTER (Some (draftAfter VIDEO))"
  have po: "w_state ?wp 1 = Some (wizardSession POSTER (Some (draftAfter VIDEO)))"
    "s_action (wizardSession POSTER (Some (draftAfter VIDEO))) = ADD_CONTENT
      \<and> s_step (wizardSession POSTER (Some (draftAfter VIDEO))) = Some POSTER
      \<and> msg_photo (textMessage 1 ''hello'') = None"
    by (simp_all add: wizardWorld_def wizardSession_def world0_def)
  have p2: "handleAdminInput env0 1 (textMessage 1 ''hello'') ?wp
     = Ok () (safeSend env0 1 PhotoRequired ?wp)"
    using media_steps_reprompt [OF po(1) superAdmin_gate(1), of "textMessage 1 ''hello''"] po(2)
    by blast
  let ?we = "sessionWorld episodeSession"
  have ep: "w_state ?we 1 = Some episodeSession"
    "s_action episodeSession = ADD_EPISODE \<and> s_step episodeSession = Some VIDEO
      \<and> msg_video (textMessage 1 ''hello'') = None
      \<and> \<not> storeFails env0 MovieFindById \<and> storedKind episodeSession ?we \<noteq> None"
    by (simp_all add: sessionWorld_def episodeSession_def world0_def env0_def storedKind_def
        findById_def parasyte_def)
  have p3: "handleAdminInput env0 1 (textMessage 1 ''hello'') ?we
     = Ok () (safeSend env0 1 EpisodeVideoRequired ?we)"
    using media_steps_reprompt [OF ep(1) superAdmin_gate(1), of "textMessage 1 ''hello''"] ep(2)
    by blast
  let ?w4 = "sessionWorld (editSession ''posterId'')"
  have e4: "w_state ?w4 1 = Some (editSession ''posterId'')"
    "s_action (editSession ''posterId'') = EDIT_FIELD
      \<and> s_field (editSession ''posterId'') = Some ''posterId''
      \<and> msg_photo (textMessage 1 ''hello'') = None
      \<and> \<not> storeFails env0 MovieFindById \<and> storedKind (editSession ''posterId'') ?w4 \<noteq> None"
    by (simp_all add: sessionWorld_def editSession_def world0_def env0_def storedKind_def
        findById_def parasyte_def)
  have p4: "handleAdminInput env0 1 (textMessage 1 ''hello'') ?w4
     = Ok () (safeSend env0 1 PhotoPlease ?w4)"
    using media_steps_reprompt [OF e4(1) superAdmin_gate(1), of "textMessage 1 ''hello''"] e4(2)
    by blast
  let ?w5 = "sessionWorld (editSession ''fileId'')"
  have e5: "w_state ?w5 1 = Some (editSession ''fileId'')"
    "s_action (editSession ''fileId'') = EDIT_FIELD
      \<and> s_field (editSession ''fileId'') = Some ''fileId''
      \<and> msg_video (textMessage 1 ''hello'') = None
      \<and> \<not> storeFails env0 MovieFindById \<and> storedKind (editSession ''fileId'') ?w5 = Some movie"
    by (simp_all add: sessionWorld_def editSession_def world0_def env0_def storedKind_def
        findById_def parasyte_def)
  have p5: "handleAdminInput env0 1 (textMessage 1 ''hello'') ?w5
     = Ok () (safeSend env0 1 VideoFilePlease ?w5)"
    using media_steps_reprompt [OF e5(1) superAdmin_gate(1), of "textMessage 1 ''hello''"] e5(2)
    by blast
  let ?wt = "wizardWorld 1 TITLE (Some (draftAfter POSTER))"
  let ?st = "wizardSession TITLE (Some (draftAfter POSTER))"
  have ti: "w_state ?wt 1 = Some ?st"
    "s_action ?st = ADD_CONTENT \<and> s_step ?st = Some TITLE \<and> s_data ?st = Some (draftAfter POSTER)"
    by (simp_all add: wizardWorld_def wizardSession_def world0_def)
  have nx: "?st\<lparr>s_data := Some ((draftAfter POSTER)\<lparr>d_title :=
        Some (sanitize (Some (messageText (textMessage 1 ''Parasyte''))))\<rparr>),
      s_step := Some COUNTRY\<rparr> = wizardSession COUNTRY (Some (draftAfter TITLE))"
    by (simp add: wizardSession_def draftAfter_def parasyteDraft_def texts_read)
  have p7: "handleAdminInput env0 1 (textMessage 1 ''Parasyte'') ?wt
     = Ok () (safeSend env0 1 AskCountry (stateSet 1 (wizardSession COUNTRY (Some (draftAfter TITLE))) ?wt))"
    unfolding nx [symmetric]
    using media_steps_reprompt [OF ti(1) superAdmin_gate(1), of "textMessage 1 ''Parasyte''"
        VideoRequired "draftAfter POSTER"] ti(2)
    by blast
  show ?thesis using p1 p2 p3 p4 p5 p6 p7 by blast
qed

text \<open>
  C7 as stated fails at the text steps: a video without caption sent at the Title step
  advances the session to the Country step and writes the empty title into the draft.
\<close>

theorem text_step_any_kind_counterexample:
  "msg_text videoMessage = None \<and> msg_caption videoMessage = None
   \<and> stepOf (wizardWorld 1 TITLE (Some (draftAfter POSTER))) 1 = Some TITLE
   \<and> stepOf (worldOf (handleAdminInput env0 1 videoMessage
        (wizardWorld 1 TITLE (Some (draftAfter POSTER))))) 1 = Some COUNTRY
   \<and> draftOf (worldOf (handleAdminInput env0 1 videoMessage
        (wizardWorld 1 TITLE (Some (draftAfter POSTER))))) 1
       = Some ((draftAfter POSTER)\<lparr>d_title := Some []\<rparr>)"
  by code_simp



end
